theory Spec2Isabelle
  imports Main
begin

section \<open>Python values, exceptions and the local file system\<close>

text \<open>
  The source is Python. Exceptions are values of the type \<open>error\<close>; a computation that may
  raise returns \<open>error + 'a\<close>, with \<open>Inl\<close> for the exception.
\<close>

datatype error =
    HttpError | HTTPError | ConnectionError | JSONDecodeError
  | AttributeError | TypeError | IndexError | KeyError
  | UnboundLocalError | FileNotFoundError | IsADirectoryError | OtherError string

text \<open>
  The value that \<open>json.load\<close> and \<open>response.json()\<close> return. A dict keeps its entries as an
  association list (looked up with \<open>map_of\<close>). Only integer numbers are modelled; no claim
  depends on a number.
\<close>

datatype json =
    JNull | JBool bool | JNum int | JStr string
  | JArr "json list" | JObj "(string \<times> json) list"

text \<open>Python truth value, as \<open>not x\<close> tests it.\<close>

fun truthy :: "json \<Rightarrow> bool" where
  "truthy JNull = False"
| "truthy (JBool b) = b"
| "truthy (JNum n) = (n \<noteq> 0)"
| "truthy (JStr s) = (s \<noteq> [])"
| "truthy (JArr xs) = (xs \<noteq> [])"
| "truthy (JObj kvs) = (kvs \<noteq> [])"

text \<open>\<open>x.get(key, default)\<close>: only a dict has the method.\<close>

fun py_get :: "json \<Rightarrow> string \<Rightarrow> json \<Rightarrow> error + json" where
  "py_get (JObj kvs) k d = Inr (case map_of kvs k of None \<Rightarrow> d | Some v \<Rightarrow> v)"
| "py_get _ k d = Inl AttributeError"

text \<open>
  \<open>x[0]\<close>: the first element of a list or string, IndexError when it is empty, KeyError on
  a dict (whose keys, coming from JSON, are strings), TypeError on the other values.
\<close>

fun py_index0 :: "json \<Rightarrow> error + json" where
  "py_index0 (JArr []) = Inl IndexError"
| "py_index0 (JArr (x # xs)) = Inr x"
| "py_index0 (JStr []) = Inl IndexError"
| "py_index0 (JStr (c # cs)) = Inr (JStr [c])"
| "py_index0 (JObj kvs) = Inl KeyError"
| "py_index0 _ = Inl TypeError"

fun substring :: "string \<Rightarrow> string \<Rightarrow> bool" where
  "substring xs [] = (xs = [])"
| "substring xs (y # ys) = (take (length xs) (y # ys) = xs \<or> substring xs ys)"

text \<open>
  \<open>s in x\<close> for a string \<open>s\<close>: membership in a list, key test on a dict, substring test on
  a string, TypeError on the other values.
\<close>

fun py_in :: "string \<Rightarrow> json \<Rightarrow> error + bool" where
  "py_in s (JArr xs) = Inr (JStr s \<in> set xs)"
| "py_in s (JObj kvs) = Inr (s \<in> fst ` set kvs)"
| "py_in s (JStr t) = Inr (substring s t)"
| "py_in s _ = Inl TypeError"

text \<open>\<open>x.append(s)\<close>: only a list has the method.\<close>

fun py_append :: "json \<Rightarrow> string \<Rightarrow> error + json" where
  "py_append (JArr xs) s = Inr (JArr (xs @ [JStr s]))"
| "py_append _ s = Inl AttributeError"

definition startswith :: "string \<Rightarrow> string \<Rightarrow> bool" where
  "startswith s p = (take (length p) s = p)"

text \<open>\<open>str.strip()\<close> on the ASCII white space characters.\<close>

definition is_space :: "char \<Rightarrow> bool" where
  "is_space c = (c \<in> {CHR '' '', CHR 0x09, CHR 0x0A, CHR 0x0B, CHR 0x0C, CHR 0x0D,
                       CHR 0x1C, CHR 0x1D, CHR 0x1E, CHR 0x1F})"

definition strip :: "string \<Rightarrow> string" where
  "strip s = rev (dropWhile is_space (rev (dropWhile is_space s)))"

text \<open>
  The local files are one name space: a map from the key of a file to its content.
  \<open>Doc j\<close> is a file written by \<open>json.dump(j, file)\<close>; \<open>Text s\<close> is a file holding the
  text (or bytes) \<open>s\<close>. The functions of the Python standard library that the source
  calls on file contents are not part of the repository: they are the fields of \<open>pylib\<close>,
  a parameter of the model. Reading a \<open>Doc j\<close> with \<open>json.load\<close> gives \<open>j\<close> back.
\<close>

datatype fdata = Text string | Doc json

type_synonym files = "string \<rightharpoonup> fdata"

record pylib =
  json_loads :: "string \<Rightarrow> json option"
  json_dumps :: "json \<Rightarrow> string"
  b64encode :: "string \<Rightarrow> string"

definition file_read :: "pylib \<Rightarrow> fdata \<Rightarrow> string" where
  "file_read lib d = (case d of Text s \<Rightarrow> s | Doc j \<Rightarrow> json_dumps lib j)"

definition json_load :: "pylib \<Rightarrow> fdata \<Rightarrow> error + json" where
  "json_load lib d =
     (case d of
        Doc j \<Rightarrow> Inr j
      | Text s \<Rightarrow> (case json_loads lib s of None \<Rightarrow> Inl JSONDecodeError | Some j \<Rightarrow> Inr j))"

text \<open>
  The four file names of config.py are plain names, and each is the key of the file it
  names. A path that comes from the name of a Drive file can be any string, and the
  operating system decides what it names: a regular file, existing or not, that can be
  opened under this path (\<open>File k\<close>, with the key \<open>k\<close>: two spellings of a path to the same
  file have the same key), an existing directory (\<open>Dir\<close>), or nothing that can be opened
  (\<open>Bad\<close>: the empty name, or a directory part that does not exist). The program creates
  and removes no directory, so this is a function of the path for the whole run; it is a
  parameter of the model.
\<close>

datatype target = File string | Dir | Bad

type_synonym resolver = "string \<Rightarrow> target"

text \<open>\<open>os.path.exists(path)\<close>\<close>

definition os_path_exists :: "resolver \<Rightarrow> files \<Rightarrow> string \<Rightarrow> bool" where
  "os_path_exists loc fs path =
     (case loc path of File k \<Rightarrow> k \<in> dom fs | Dir \<Rightarrow> True | Bad \<Rightarrow> False)"

text \<open>\<open>os.remove(path)\<close>\<close>

definition os_remove :: "resolver \<Rightarrow> files \<Rightarrow> string \<Rightarrow> error + files" where
  "os_remove loc fs path =
     (case loc path of
        File k \<Rightarrow> if k \<in> dom fs then Inr (fs(k := None)) else Inl FileNotFoundError
      | Dir \<Rightarrow> Inl IsADirectoryError
      | Bad \<Rightarrow> Inl FileNotFoundError)"


section \<open>config.py\<close>

definition TIME_FILE_PATH :: string where
  "TIME_FILE_PATH = ''modified_time.txt''"

definition UPLOADED_FILE_PATH :: string where
  "UPLOADED_FILE_PATH = ''uploaded_files.json''"

definition FAILED_FILE_PATH :: string where
  "FAILED_FILE_PATH = ''failure_files.json''"

definition UNSUPPORTED_FILE_PATH :: string where
  "UNSUPPORTED_FILE_PATH = ''unsupported_type_files.json''"

definition UPLOAD_FILES_URL :: string where
  "UPLOAD_FILES_URL =
     ''https://api.instill.tech/v1alpha/namespaces/george_strong/catalogs/google-test/files''"

definition PROCESS_FILES_URL :: string where
  "PROCESS_FILES_URL = ''https://api.instill.tech/v1alpha/catalogs/files/processAsync''"


section \<open>helpers.py\<close>

subsection \<open>The type classifier\<close>

definition mime_type_to_file_type :: "(string \<times> string) list" where
  "mime_type_to_file_type =
     [(''application/pdf'', ''FILE_TYPE_PDF''),
      (''text/plain'', ''FILE_TYPE_TEXT''),
      (''text/markdown'', ''FILE_TYPE_MARKDOWN''),
      (''image/png'', ''FILE_TYPE_PNG''),
      (''image/jpeg'', ''FILE_TYPE_JPEG''),
      (''image/jpg'', ''FILE_TYPE_JPG''),
      (''text/html'', ''FILE_TYPE_HTML''),
      (''application/vnd.openxmlformats-officedocument.wordprocessingml.document'',
         ''FILE_TYPE_DOCX''),
      (''application/msword'', ''FILE_TYPE_DOC''),
      (''application/vnd.ms-powerpoint'', ''FILE_TYPE_PPT''),
      (''application/vnd.openxmlformats-officedocument.presentationml.presentation'',
         ''FILE_TYPE_PPTX''),
      (''application/vnd.ms-excel'', ''FILE_TYPE_XLS''),
      (''application/vnd.openxmlformats-officedocument.spreadsheetml.sheet'',
         ''FILE_TYPE_XLSX'')]"

definition get_file_type :: "string \<Rightarrow> string" where
  "get_file_type mime_type =
     (case map_of mime_type_to_file_type mime_type of None \<Rightarrow> ''none'' | Some t \<Rightarrow> t)"

subsection \<open>The checkpoint file\<close>

definition save_modified_time_to_file :: "files \<Rightarrow> string \<Rightarrow> files" where
  "save_modified_time_to_file fs modified_time = fs(TIME_FILE_PATH \<mapsto> Text modified_time)"

definition read_modified_time_from_file :: "pylib \<Rightarrow> files \<Rightarrow> string option" where
  "read_modified_time_from_file lib fs =
     (case fs TIME_FILE_PATH of
        Some d \<Rightarrow> Some (strip (file_read lib d))
      | None \<Rightarrow> None)"

subsection \<open>The ledger files\<close>

definition load_uploaded_files :: "pylib \<Rightarrow> files \<Rightarrow> string \<Rightarrow> error + json" where
  "load_uploaded_files lib fs file_path =
     (case fs file_path of
        Some d \<Rightarrow>
          (case json_load lib d of
             Inl e \<Rightarrow> Inl e
           | Inr data \<Rightarrow> py_get data ''data'' (JArr []))
      | None \<Rightarrow> Inr (JArr []))"

definition save_uploaded_files :: "files \<Rightarrow> json \<Rightarrow> string \<Rightarrow> files" where
  "save_uploaded_files fs uploaded_files file_path =
     fs(file_path \<mapsto> Doc (JObj [(''data'', uploaded_files)]))"

definition append_file_id :: "pylib \<Rightarrow> files \<Rightarrow> string \<Rightarrow> string \<Rightarrow> error + files" where
  "append_file_id lib fs file_id file_path =
     (case load_uploaded_files lib fs file_path of
        Inl e \<Rightarrow> Inl e
      | Inr uploaded_files \<Rightarrow>
          (case py_in file_id uploaded_files of
             Inl e \<Rightarrow> Inl e
           | Inr True \<Rightarrow> Inr (save_uploaded_files fs uploaded_files file_path)
           | Inr False \<Rightarrow>
               (case py_append uploaded_files file_id of
                  Inl e \<Rightarrow> Inl e
                | Inr uploaded_files' \<Rightarrow>
                    Inr (save_uploaded_files fs uploaded_files' file_path))))"

subsection \<open>The catalog call\<close>

text \<open>
  An HTTP request as \<open>requests\<close> sends it (the headers are the same constants in every call
  and are left out), and the response: its status code and its body, \<open>None\<close> when the body
  is not JSON (then \<open>response.json()\<close> raises). The network is a function from the request
  to either the exception \<open>requests\<close> raises or the response.
\<close>

record http_request =
  rq_method :: string
  rq_url :: string
  rq_json :: "json option"

record http_response =
  status_code :: nat
  body :: "json option"

type_synonym network = "http_request \<Rightarrow> error + http_response"

text \<open>
  \<open>response.raise_for_status()\<close> of the \<open>requests\<close> library raises HTTPError for a client
  error (400 to 499) or a server error (500 to 599) status.
\<close>

definition raise_for_status :: "http_response \<Rightarrow> error option" where
  "raise_for_status response =
     (if 400 \<le> status_code response \<and> status_code response < 600 then Some HTTPError else None)"

definition response_json :: "http_response \<Rightarrow> error + json" where
  "response_json response =
     (case body response of None \<Rightarrow> Inl JSONDecodeError | Some j \<Rightarrow> Inr j)"

definition call_catalog_api ::
  "network \<Rightarrow> string \<Rightarrow> string \<Rightarrow> json option \<Rightarrow> string \<Rightarrow> error + json" where
  "call_catalog_api net url method data name =
     (case net \<lparr>rq_method = method, rq_url = url, rq_json = data\<rparr> of
        Inl e \<Rightarrow> Inl e
      | Inr response \<Rightarrow>
          (case raise_for_status response of
             Some e \<Rightarrow> Inl e
           | None \<Rightarrow> response_json response))"

subsection \<open>Reading a file for upload\<close>

text \<open>process_file_data is called with the local path of a Drive file.\<close>

definition process_file_data ::
  "pylib \<Rightarrow> resolver \<Rightarrow> files \<Rightarrow> string \<Rightarrow> string \<Rightarrow> error + json" where
  "process_file_data lib loc fs file_path file_type =
     (case loc file_path of
        File k \<Rightarrow>
          (case fs k of
             None \<Rightarrow> Inl FileNotFoundError
           | Some d \<Rightarrow>
               Inr (JObj [(''name'', JStr file_path),
                          (''type'', JStr file_type),
                          (''content'', JStr (b64encode lib (file_read lib d)))]))
      | Dir \<Rightarrow> Inl IsADirectoryError
      | Bad \<Rightarrow> Inl FileNotFoundError)"


section \<open>script.py\<close>

text \<open>
  script.py repeats get_file_type, process_file_data, the checkpoint and ledger functions and
  main of helpers.py and main.py word for word (with the constants of config.py in lower
  case). Its call_catalog_api is different: it chooses the \<open>requests\<close> function by the
  method, leaves \<open>response\<close> unbound for any other method, and does not call
  \<open>raise_for_status\<close>.
\<close>

definition script_call_catalog_api ::
  "network \<Rightarrow> string \<Rightarrow> string \<Rightarrow> json option \<Rightarrow> string \<Rightarrow> error + json" where
  "script_call_catalog_api net url method data name =
     (case (if method = ''GET'' then
              Inr (net \<lparr>rq_method = ''GET'', rq_url = url, rq_json = None\<rparr>)
            else if method = ''POST'' then
              Inr (net \<lparr>rq_method = ''POST'', rq_url = url, rq_json = data\<rparr>)
            else if method = ''PUT'' then
              Inr (net \<lparr>rq_method = ''PUT'', rq_url = url, rq_json = data\<rparr>)
            else if method = ''DELETE'' then
              Inr (net \<lparr>rq_method = ''DELETE'', rq_url = url, rq_json = None\<rparr>)
            else Inl UnboundLocalError) of
        Inl e \<Rightarrow> Inl e
      | Inr (Inl e) \<Rightarrow> Inl e
      | Inr (Inr response) \<Rightarrow> response_json response)"


section \<open>main.py\<close>

subsection \<open>The outside world of one run\<close>

text \<open>
  What one call of \<open>main()\<close> meets outside the program: the clock reading as
  get_current_time_formatted returns it, the Drive service (\<open>build\<close>, \<open>files().list\<close>,
  \<open>files().get\<close>, the media download), the network of the catalog, and what the local
  paths made from Drive file names resolve to. Each Drive call either raises or returns a
  value of the shape the requested fields give it. The OAuth steps before the \<open>try\<close> of
  main are outside the model.
\<close>

record drive_item =
  item_id :: string
  item_name :: string

record file_metadata =
  mimeType :: string
  name :: string

datatype media_request = ExportMedia string string | GetMedia string

text \<open>
  A download is the sequence of results of \<open>downloader.next_chunk()\<close>: \<open>More s d\<close> writes
  the bytes \<open>s\<close> and is not done, \<open>Done s\<close> writes \<open>s\<close> and is done, \<open>Fail e\<close> raises.
\<close>

datatype download = Done string | More string download | Fail error

record world =
  now :: string
  build :: "error option"
  files_list :: "string \<Rightarrow> error + drive_item list"
  files_get :: "string \<Rightarrow> error + file_metadata"
  media :: "media_request \<Rightarrow> download"
  net :: network
  locate :: resolver

text \<open>
  The observable steps of a run, in the order they happen: the checkpoint write, the
  listing query, a metadata fetch, the creation of the local file, a call of
  call_catalog_api (url and request data), a ledger append (path and id) and the removal
  of a local file.
\<close>

datatype event =
    EvSaveTime string
  | EvList string
  | EvMeta string
  | EvCreate string
  | EvCall string json
  | EvLedger string string
  | EvRemove string

text \<open>
  The way an iteration of the loop ends: at one of its \<open>continue\<close> statements, at the end
  of the body, or in the exception handler.
\<close>

datatype outcome =
    Already_Uploaded | Folder | Unsupported
  | Upload_Failed | Process_Failed | Uploaded
  | Exception_Logged error

text \<open>
  The local variables of main that the exception handler reads; \<open>None\<close> is unbound. They
  keep their values from one iteration to the next.
\<close>

record locals =
  file_name :: "string option"
  local_file_name :: "string option"

subsection \<open>The body of the loop\<close>

text \<open>The \<open>while not done\<close> loop of the download, with the bytes written so far.\<close>

fun next_chunks :: "download \<Rightarrow> string \<Rightarrow> error option \<times> string" where
  "next_chunks (Done s) written = (None, written @ s)"
| "next_chunks (More s d) written = next_chunks d (written @ s)"
| "next_chunks (Fail e) written = (Some e, written)"

text \<open>\<open>uploaded_file.get("file", {}).get("fileUid", None)\<close>\<close>

definition get_file_uid :: "json \<Rightarrow> error + json" where
  "get_file_uid uploaded_file =
     (case py_get uploaded_file ''file'' (JObj []) of
        Inl e \<Rightarrow> Inl e
      | Inr f \<Rightarrow> py_get f ''fileUid'' JNull)"

text \<open>\<open>process_data.get("files", [{}])[0].get("processStatus", None)\<close>\<close>

definition get_process_status :: "json \<Rightarrow> error + json" where
  "get_process_status process_data =
     (case py_get process_data ''files'' (JArr [JObj []]) of
        Inl e \<Rightarrow> Inl e
      | Inr fl \<Rightarrow>
          (case py_index0 fl of
             Inl e \<Rightarrow> Inl e
           | Inr f \<Rightarrow> py_get f ''processStatus'' JNull))"

text \<open>
  The two failure branches (lines 113 to 118 and 123 to 127 of main.py) are the same
  statements: append the id to the Failed ledger, remove the local file, continue.
\<close>

definition record_failure ::
  "pylib \<Rightarrow> resolver \<Rightarrow> files \<Rightarrow> string \<Rightarrow> string
    \<Rightarrow> (error + unit) \<times> files \<times> event list" where
  "record_failure lib rs fs file_id lname =
     (case append_file_id lib fs file_id FAILED_FILE_PATH of
        Inl e \<Rightarrow> (Inl e, fs, [])
      | Inr fs1 \<Rightarrow>
          (case os_remove rs fs1 lname of
             Inl e \<Rightarrow> (Inl e, fs1, [EvLedger FAILED_FILE_PATH file_id])
           | Inr fs2 \<Rightarrow>
               (Inr (), fs2, [EvLedger FAILED_FILE_PATH file_id, EvRemove lname])))"

text \<open>The end of the body (lines 129 and 130): remove the local file, then append the id.\<close>

definition record_success ::
  "pylib \<Rightarrow> resolver \<Rightarrow> files \<Rightarrow> string \<Rightarrow> string
    \<Rightarrow> (error + unit) \<times> files \<times> event list" where
  "record_success lib rs fs file_id lname =
     (case os_remove rs fs lname of
        Inl e \<Rightarrow> (Inl e, fs, [])
      | Inr fs1 \<Rightarrow>
          (case append_file_id lib fs1 file_id UPLOADED_FILE_PATH of
             Inl e \<Rightarrow> (Inl e, fs1, [EvRemove lname])
           | Inr fs2 \<Rightarrow>
               (Inr (), fs2, [EvRemove lname, EvLedger UPLOADED_FILE_PATH file_id])))"

definition tag :: "outcome \<Rightarrow> (error + unit) \<times> files \<times> event list
    \<Rightarrow> (error + outcome) \<times> files \<times> event list" where
  "tag out r = (case r of (Inl e, fs, evs) \<Rightarrow> (Inl e, fs, evs) | (Inr u, fs, evs) \<Rightarrow> (Inr out, fs, evs))"

definition after :: "event list \<Rightarrow> (error + outcome) \<times> files \<times> event list
    \<Rightarrow> (error + outcome) \<times> files \<times> event list" where
  "after pre r = (case r of (x, fs, evs) \<Rightarrow> (x, fs, pre @ evs))"

text \<open>
  Lines 120 to 130: the processing trigger and what follows. \<open>call\<close> is the
  call_catalog_api of the variant, on the network of this run.
\<close>

definition trigger_stage ::
  "(string \<Rightarrow> string \<Rightarrow> json option \<Rightarrow> string \<Rightarrow> error + json) \<Rightarrow> pylib \<Rightarrow> resolver
    \<Rightarrow> files \<Rightarrow> string \<Rightarrow> string \<Rightarrow> json \<Rightarrow> (error + outcome) \<times> files \<times> event list" where
  "trigger_stage call lib rs fs file_id lname file_uid =
     (let data = JObj [(''fileUids'', JArr [file_uid])] in
      after [EvCall PROCESS_FILES_URL data]
        (case call PROCESS_FILES_URL ''POST'' (Some data) ''Process Files'' of
           Inl e \<Rightarrow> (Inl e, fs, [])
         | Inr process_data \<Rightarrow>
             (case get_process_status process_data of
                Inl e \<Rightarrow> (Inl e, fs, [])
              | Inr process_status \<Rightarrow>
                  if \<not> truthy process_status
                  then tag Process_Failed (record_failure lib rs fs file_id lname)
                  else tag Uploaded (record_success lib rs fs file_id lname))))"

text \<open>Lines 108 to 118: reading the local file, the upload and the check of its answer.\<close>

definition upload_stage ::
  "(string \<Rightarrow> string \<Rightarrow> json option \<Rightarrow> string \<Rightarrow> error + json) \<Rightarrow> pylib \<Rightarrow> resolver
    \<Rightarrow> files \<Rightarrow> string \<Rightarrow> string \<Rightarrow> string \<Rightarrow> (error + outcome) \<times> files \<times> event list" where
  "upload_stage call lib rs fs file_id lname file_type =
     (case process_file_data lib rs fs lname file_type of
        Inl e \<Rightarrow> (Inl e, fs, [])
      | Inr file_data \<Rightarrow>
          after [EvCall UPLOAD_FILES_URL file_data]
            (case call UPLOAD_FILES_URL ''POST'' (Some file_data) ''Upload Files'' of
               Inl e \<Rightarrow> (Inl e, fs, [])
             | Inr uploaded_file \<Rightarrow>
                 (case get_file_uid uploaded_file of
                    Inl e \<Rightarrow> (Inl e, fs, [])
                  | Inr file_uid \<Rightarrow>
                      if \<not> truthy file_uid
                      then tag Upload_Failed (record_failure lib rs fs file_id lname)
                      else trigger_stage call lib rs fs file_id lname file_uid)))"

text \<open>
  Lines 101 to 106: \<open>io.FileIO(local_file_name, 'wb')\<close> creates (or empties) the file that
  the local path names, or raises when the path names a directory or nothing that can be
  opened; the chunks are written to the file, and an exception of \<open>next_chunk\<close> leaves what
  was written.
\<close>

definition download_stage ::
  "(string \<Rightarrow> string \<Rightarrow> json option \<Rightarrow> string \<Rightarrow> error + json) \<Rightarrow> pylib \<Rightarrow> world \<Rightarrow> files
    \<Rightarrow> string \<Rightarrow> string \<Rightarrow> string \<Rightarrow> media_request
    \<Rightarrow> (error + outcome) \<times> files \<times> event list" where
  "download_stage call lib w fs file_id lname file_type request =
     (case locate w lname of
        Dir \<Rightarrow> (Inl IsADirectoryError, fs, [])
      | Bad \<Rightarrow> (Inl FileNotFoundError, fs, [])
      | File k \<Rightarrow>
          after [EvCreate lname]
            (case next_chunks (media w request) [] of
               (Some e, written) \<Rightarrow> (Inl e, fs(k \<mapsto> Text written), [])
             | (None, written) \<Rightarrow>
                 upload_stage call lib (locate w) (fs(k \<mapsto> Text written)) file_id lname
                   file_type))"

text \<open>Lines 70 to 130: the body of the \<open>try\<close> inside the loop.\<close>

definition try_body ::
  "(network \<Rightarrow> string \<Rightarrow> string \<Rightarrow> json option \<Rightarrow> string \<Rightarrow> error + json) \<Rightarrow> pylib \<Rightarrow> world
    \<Rightarrow> drive_item \<Rightarrow> locals \<Rightarrow> files \<Rightarrow> (error + outcome) \<times> locals \<times> files \<times> event list" where
  "try_body call lib w item loc fs =
     (let file_id = item_id item in
      case load_uploaded_files lib fs UPLOADED_FILE_PATH of
        Inl e \<Rightarrow> (Inl e, loc, fs, [])
      | Inr uploaded_files \<Rightarrow>
          (case py_in file_id uploaded_files of
             Inl e \<Rightarrow> (Inl e, loc, fs, [])
           | Inr True \<Rightarrow> (Inr Already_Uploaded, loc, fs, [])
           | Inr False \<Rightarrow>
               (case files_get w file_id of
                  Inl e \<Rightarrow> (Inl e, loc, fs, [EvMeta file_id])
                | Inr metadata \<Rightarrow>
                    (let mime_type = mimeType metadata;
                         fname = name metadata;
                         lname = (if startswith mime_type ''application/vnd.google-apps.''
                                  then fname @ ''.pdf'' else fname);
                         loc' = \<lparr>file_name = Some fname, local_file_name = Some lname\<rparr>
                     in if mime_type = ''application/vnd.google-apps.folder''
                        then (Inr Folder, loc', fs, [EvMeta file_id])
                        else
                          (let mime_type' =
                                 (if startswith mime_type ''application/vnd.google-apps.''
                                  then ''application/pdf'' else mime_type);
                               request =
                                 (if startswith mime_type ''application/vnd.google-apps.''
                                  then ExportMedia file_id ''application/pdf''
                                  else GetMedia file_id);
                               file_type = get_file_type mime_type'
                           in if file_type = ''none''
                              then
                                (case append_file_id lib fs file_id UNSUPPORTED_FILE_PATH of
                                   Inl e \<Rightarrow> (Inl e, loc', fs, [EvMeta file_id])
                                 | Inr fs1 \<Rightarrow>
                                     (Inr Unsupported, loc', fs1,
                                      [EvMeta file_id, EvLedger UNSUPPORTED_FILE_PATH file_id]))
                              else
                                (case download_stage (call (net w)) lib w fs file_id lname
                                        file_type request of
                                   (r, fs1, evs) \<Rightarrow> (r, loc', fs1, EvMeta file_id # evs)))))))"

text \<open>
  Lines 69 to 137: the body with its handler. The handler formats \<open>file_name\<close> into the log
  message and tests \<open>local_file_name\<close>: reading an unbound local raises UnboundLocalError,
  which leaves the loop, and so does an exception of \<open>os.remove\<close>.
\<close>

definition process_item ::
  "(network \<Rightarrow> string \<Rightarrow> string \<Rightarrow> json option \<Rightarrow> string \<Rightarrow> error + json) \<Rightarrow> pylib \<Rightarrow> world
    \<Rightarrow> drive_item \<Rightarrow> locals \<Rightarrow> files \<Rightarrow> (error + outcome) \<times> locals \<times> files \<times> event list" where
  "process_item call lib w item loc fs =
     (case try_body call lib w item loc fs of
        (Inr out, loc1, fs1, evs) \<Rightarrow> (Inr out, loc1, fs1, evs)
      | (Inl error, loc1, fs1, evs) \<Rightarrow>
          (case file_name loc1 of
             None \<Rightarrow> (Inl UnboundLocalError, loc1, fs1, evs)
           | Some fname \<Rightarrow>
               (case local_file_name loc1 of
                  None \<Rightarrow> (Inl UnboundLocalError, loc1, fs1, evs)
                | Some lname \<Rightarrow>
                    if os_path_exists (locate w) fs1 lname
                    then (case os_remove (locate w) fs1 lname of
                            Inl e \<Rightarrow> (Inl e, loc1, fs1, evs)
                          | Inr fs2 \<Rightarrow>
                              (Inr (Exception_Logged error), loc1, fs2, evs @ [EvRemove lname]))
                    else (Inr (Exception_Logged error), loc1, fs1, evs))))"

subsection \<open>The loop and the run\<close>

text \<open>
  The \<open>for item in items\<close> loop: the outcomes of the iterations that ended, the exception
  that left the loop if one did, the files and the events.
\<close>

fun for_items ::
  "(network \<Rightarrow> string \<Rightarrow> string \<Rightarrow> json option \<Rightarrow> string \<Rightarrow> error + json) \<Rightarrow> pylib \<Rightarrow> world
    \<Rightarrow> drive_item list \<Rightarrow> locals \<Rightarrow> files
    \<Rightarrow> error option \<times> outcome list \<times> files \<times> event list" where
  "for_items call lib w [] loc fs = (None, [], fs, [])"
| "for_items call lib w (item # items) loc fs =
     (case process_item call lib w item loc fs of
        (Inl e, loc1, fs1, evs) \<Rightarrow> (Some e, [], fs1, evs)
      | (Inr out, loc1, fs1, evs) \<Rightarrow>
          (case for_items call lib w items loc1 fs1 of
             (r, outs, fs2, evs2) \<Rightarrow> (r, out # outs, fs2, evs @ evs2)))"

text \<open>
  Lines 47 to 137: the \<open>try\<close> of main, up to the point where it either ends or an exception
  reaches the outer handler.
\<close>

definition run_try ::
  "(network \<Rightarrow> string \<Rightarrow> string \<Rightarrow> json option \<Rightarrow> string \<Rightarrow> error + json) \<Rightarrow> pylib \<Rightarrow> world
    \<Rightarrow> files \<Rightarrow> error option \<times> outcome list \<times> files \<times> event list" where
  "run_try call lib w fs =
     (case build w of
        Some e \<Rightarrow> (Some e, [], fs, [])
      | None \<Rightarrow>
          (let stored = read_modified_time_from_file lib fs;
               absent = (stored = None \<or> stored = Some []);
               query_modified_time = (if absent then now w else the stored);
               fs1 = (if absent then save_modified_time_to_file fs query_modified_time else fs);
               ev1 = (if absent then [EvSaveTime query_modified_time] else [])
           in case files_list w query_modified_time of
                Inl e \<Rightarrow> (Some e, [], fs1, ev1 @ [EvList query_modified_time])
              | Inr items \<Rightarrow>
                  if items = [] then (None, [], fs1, ev1 @ [EvList query_modified_time])
                  else
                    (case for_items call lib w items
                            \<lparr>file_name = None, local_file_name = None\<rparr> fs1 of
                       (r, outs, fs2, evs) \<Rightarrow>
                         (r, outs, fs2, ev1 @ [EvList query_modified_time] @ evs))))"

text \<open>
  main: the outer handler logs the exception and calls \<open>main()\<close> again. Every call meets
  the next world of the list; \<open>None\<close> says that the calls have not returned within the
  worlds given. The result is the files and the events of all the calls.
\<close>

fun main ::
  "(network \<Rightarrow> string \<Rightarrow> string \<Rightarrow> json option \<Rightarrow> string \<Rightarrow> error + json) \<Rightarrow> pylib
    \<Rightarrow> world list \<Rightarrow> files \<Rightarrow> (files \<times> event list) option" where
  "main call lib [] fs = None"
| "main call lib (w # ws) fs =
     (case run_try call lib w fs of
        (None, outs, fs1, evs) \<Rightarrow> Some (fs1, evs)
      | (Some e, outs, fs1, evs) \<Rightarrow>
          (case main call lib ws fs1 of
             None \<Rightarrow> None
           | Some (fs2, evs2) \<Rightarrow> Some (fs2, evs @ evs2)))"

text \<open>The two entry points.\<close>

definition main_py :: "pylib \<Rightarrow> world list \<Rightarrow> files \<Rightarrow> (files \<times> event list) option" where
  "main_py = main call_catalog_api"

definition script_main :: "pylib \<Rightarrow> world list \<Rightarrow> files \<Rightarrow> (files \<times> event list) option" where
  "script_main = main script_call_catalog_api"


section \<open>Notions used in the statements\<close>

text \<open>
  The value that line 81 of main.py gives \<open>local_file_name\<close>, and the state of the two
  locals after lines 79 to 81 have run on the metadata \<open>md\<close>.
\<close>

definition local_name :: "file_metadata \<Rightarrow> string" where
  "local_name md = (if startswith (mimeType md) ''application/vnd.google-apps.''
                    then name md @ ''.pdf'' else name md)"

definition bound :: "locals \<Rightarrow> file_metadata \<Rightarrow> bool" where
  "bound loc md = (loc = \<lparr>file_name = Some (name md), local_file_name = Some (local_name md)\<rparr>)"

text \<open>The file type that lines 87 to 95 compute from the metadata.\<close>

definition classified :: "file_metadata \<Rightarrow> string" where
  "classified md =
     get_file_type (if startswith (mimeType md) ''application/vnd.google-apps.''
                    then ''application/pdf'' else mimeType md)"

text \<open>
  Summaries of the ways an iteration can end. An upload or trigger stage that starts with
  the local file in place (the path \<open>lname\<close> names the file with the key \<open>k\<close>) ends in one
  of four ways, after some calls of call_catalog_api: with an exception and the file still
  there; with an exception after the file was removed; with the id appended to the Failed
  ledger and then the file removed; or with the file removed and then the id appended to
  the Uploaded ledger.
\<close>

fun is_call :: "event \<Rightarrow> bool" where
  "is_call (EvCall u d) = True"
| "is_call _ = False"

definition tail_ok ::
  "string \<Rightarrow> string \<Rightarrow> string \<Rightarrow> files \<Rightarrow> (error + outcome) \<times> files \<times> event list \<Rightarrow> bool" where
  "tail_ok file_id lname k fs res =
     (case res of (r, fs', evs) \<Rightarrow>
        (\<exists>e. r = Inl e \<and> fs' = fs \<and> dropWhile is_call evs = [])
      \<or> (\<exists>e. r = Inl e \<and> fs' = fs(k := None) \<and> dropWhile is_call evs = [EvRemove lname])
      \<or> (\<exists>d. (r = Inr Upload_Failed \<or> r = Inr Process_Failed)
            \<and> fs' = (fs(FAILED_FILE_PATH \<mapsto> Doc d))(k := None)
            \<and> dropWhile is_call evs = [EvLedger FAILED_FILE_PATH file_id, EvRemove lname])
      \<or> (\<exists>d. r = Inr Uploaded
            \<and> fs' = (fs(k := None))(UPLOADED_FILE_PATH \<mapsto> Doc d)
            \<and> dropWhile is_call evs = [EvRemove lname, EvLedger UPLOADED_FILE_PATH file_id]))"

text \<open>
  What the handler of lines 132 to 137 does after an exception, from the locals, the files
  and the events at that point.
\<close>

definition handled ::
  "resolver \<Rightarrow> locals \<Rightarrow> files \<Rightarrow> event list
    \<Rightarrow> (error + outcome) \<times> files \<times> event list \<Rightarrow> bool" where
  "handled rs loc fs evs0 res =
     (case res of (r, fs', evs) \<Rightarrow>
        (if file_name loc = None \<or> local_file_name loc = None
         then r = Inl UnboundLocalError \<and> fs' = fs \<and> evs = evs0
         else (case rs (the (local_file_name loc)) of
                 File k \<Rightarrow>
                   (\<exists>e. r = Inr (Exception_Logged e)) \<and>
                   (if k \<in> dom fs
                    then fs' = fs(k := None)
                         \<and> evs = evs0 @ [EvRemove (the (local_file_name loc))]
                    else fs' = fs \<and> evs = evs0)
               | Dir \<Rightarrow> r = Inl IsADirectoryError \<and> fs' = fs \<and> evs = evs0
               | Bad \<Rightarrow> (\<exists>e. r = Inr (Exception_Logged e)) \<and> fs' = fs \<and> evs = evs0)))"

text \<open>
  An iteration that created the local file, with the key \<open>k\<close>: the events are the metadata
  fetch, the creation, the calls \<open>cs\<close> and then the removal, with the ledger append before
  or after it.
\<close>

definition created ::
  "string \<Rightarrow> file_metadata \<Rightarrow> string \<Rightarrow> files \<Rightarrow> event list \<Rightarrow> string
    \<Rightarrow> (error + outcome) \<times> files \<times> event list \<Rightarrow> bool" where
  "created file_id md k fs cs written res =
     (case res of (r, fs', evs) \<Rightarrow>
           ((\<exists>e. r = Inr (Exception_Logged e)
               \<and> fs' = (fs(k \<mapsto> Text written))(k := None)
               \<and> evs = EvMeta file_id # EvCreate (local_name md) # cs @ [EvRemove (local_name md)])
          \<or> (\<exists>d. (r = Inr Upload_Failed \<or> r = Inr Process_Failed)
               \<and> fs' = (fs(k \<mapsto> Text written, FAILED_FILE_PATH \<mapsto> Doc d))(k := None)
               \<and> evs = EvMeta file_id # EvCreate (local_name md) # cs
                          @ [EvLedger FAILED_FILE_PATH file_id, EvRemove (local_name md)])
          \<or> (\<exists>d. r = Inr Uploaded
               \<and> fs' = (fs(k \<mapsto> Text written))(k := None, UPLOADED_FILE_PATH \<mapsto> Doc d)
               \<and> evs = EvMeta file_id # EvCreate (local_name md) # cs
                          @ [EvRemove (local_name md), EvLedger UPLOADED_FILE_PATH file_id])))"

subsection \<open>Example runs\<close>

text \<open>
  A stand-in for the library functions in the example runs: in these runs no file is parsed
  from text and no JSON document is read as text, and the base64 encoding is replaced by the
  identity, which only changes the content field of the upload request.
\<close>

definition lib0 :: pylib where
  "lib0 = \<lparr>json_loads = (\<lambda>s. None), json_dumps = (\<lambda>j. []), b64encode = (\<lambda>s. s)\<rparr>"

text \<open>
  The scenario of the specification: the listing holds one PDF file \<open>f1\<close>, the download
  succeeds, the upload answers with the file uid \<open>u1\<close> and the processing call with the
  status \<open>done\<close>. \<open>scripted\<close> builds a world from the listing, the answer of the metadata
  fetch, the download and the answers of the two catalog calls; in it every local path
  names the file whose key is the path itself.
\<close>

definition f1 :: drive_item where
  "f1 = \<lparr>item_id = ''f1'', item_name = ''report.pdf''\<rparr>"

definition pdf_meta :: file_metadata where
  "pdf_meta = \<lparr>mimeType = ''application/pdf'', name = ''report.pdf''\<rparr>"

definition upload_ok :: http_response where
  "upload_ok = \<lparr>status_code = 200,
                 body = Some (JObj [(''file'', JObj [(''fileUid'', JStr ''u1'')])])\<rparr>"

definition process_ok :: http_response where
  "process_ok = \<lparr>status_code = 200,
                  body = Some (JObj [(''files'', JArr [JObj [(''processStatus'', JStr ''done'')]])])\<rparr>"

definition scripted ::
  "drive_item list \<Rightarrow> error + file_metadata \<Rightarrow> download
    \<Rightarrow> error + http_response \<Rightarrow> error + http_response \<Rightarrow> world" where
  "scripted items md dl up pr =
     \<lparr>now = ''2024-05-01T10:00:00.000Z'', build = None,
      files_list = (\<lambda>q. Inr items), files_get = (\<lambda>i. md), media = (\<lambda>r. dl),
      net = (\<lambda>rq. if rq_url rq = UPLOAD_FILES_URL then up else pr),
      locate = File\<rparr>"

definition world_ok :: world where
  "world_ok = scripted [f1] (Inr pdf_meta) (Done ''%PDF'') (Inr upload_ok) (Inr process_ok)"

definition locals0 :: locals where
  "locals0 = \<lparr>file_name = None, local_file_name = None\<rparr>"

subsection \<open>The order of ledger appends and removals\<close>

text \<open>
  \<open>removals_recorded False evs\<close>: every removal of a local file in \<open>evs\<close> comes after a
  ledger append.
\<close>

fun removals_recorded :: "bool \<Rightarrow> event list \<Rightarrow> bool" where
  "removals_recorded seen [] = True"
| "removals_recorded seen (EvLedger p i # es) = removals_recorded True es"
| "removals_recorded seen (EvRemove p # es) = (seen \<and> removals_recorded seen es)"
| "removals_recorded seen (e # es) = removals_recorded seen es"

subsection \<open>More example worlds\<close>

text \<open>An editor document, exported as PDF.\<close>

definition doc_item :: drive_item where
  "doc_item = \<lparr>item_id = ''d1'', item_name = ''notes''\<rparr>"

definition doc_meta :: file_metadata where
  "doc_meta = \<lparr>mimeType = ''application/vnd.google-apps.document'', name = ''notes''\<rparr>"

definition world_editor :: world where
  "world_editor =
     scripted [doc_item] (Inr doc_meta) (Done ''%PDF'') (Inr upload_ok) (Inr process_ok)"

text \<open>The listing is empty.\<close>

definition world_empty :: world where
  "world_empty = scripted [] (Inr pdf_meta) (Done ''%PDF'') (Inr upload_ok) (Inr process_ok)"

text \<open>The metadata fetch of the only listed file raises.\<close>

definition world_meta_fails :: world where
  "world_meta_fails =
     scripted [f1] (Inl HttpError) (Done ''%PDF'') (Inr upload_ok) (Inr process_ok)"

text \<open>
  Answers with status 200 that lack the expected field: an upload answer whose \<open>file\<close> entry
  is null, and a processing answer whose \<open>files\<close> list is empty.
\<close>

definition upload_null :: http_response where
  "upload_null = \<lparr>status_code = 200, body = Some (JObj [(''file'', JNull)])\<rparr>"

definition process_empty :: http_response where
  "process_empty = \<lparr>status_code = 200, body = Some (JObj [(''files'', JArr [])])\<rparr>"

definition world_upload_null :: world where
  "world_upload_null =
     scripted [f1] (Inr pdf_meta) (Done ''%PDF'') (Inr upload_null) (Inr process_ok)"

definition world_process_empty :: world where
  "world_process_empty =
     scripted [f1] (Inr pdf_meta) (Done ''%PDF'') (Inr upload_ok) (Inr process_empty)"

text \<open>The catalog answers every request with status 500 and a JSON error body.\<close>

definition server_error :: http_response where
  "server_error = \<lparr>status_code = 500, body = Some (JObj [(''message'', JStr ''internal'')])\<rparr>"

definition world_500 :: world where
  "world_500 =
     scripted [f1] (Inr pdf_meta) (Done ''%PDF'') (Inr server_error) (Inr server_error)"





text \<open>The files of a working directory whose Uploaded ledger holds \<open>f1\<close>.\<close>

definition uploaded_f1 :: files where
  "uploaded_f1 = [UPLOADED_FILE_PATH \<mapsto> Doc (JObj [(''data'', JArr [JStr ''f1''])])]"

subsection \<open>Networks without an error status\<close>

text \<open>No answer of the network has a status from 400 to 599.\<close>

definition no_error_status :: "network \<Rightarrow> bool" where
  "no_error_status n =
     (\<forall>rq response. n rq = Inr response \<longrightarrow>
        \<not> (400 \<le> status_code response \<and> status_code response < 600))"


section \<open>The type classifier\<close>

text \<open>
  C7: get_file_type is a total function of the MIME type alone, given by the fixed table: a
  MIME type that is not a key of the table gives the marker \<open>''none''\<close>, and each entry of
  the table gives its catalog type; \<open>application/pdf\<close> gives \<open>FILE_TYPE_PDF\<close>.
\<close>

theorem get_file_type_table:
  "(mime_type \<notin> fst ` set mime_type_to_file_type \<longrightarrow> get_file_type mime_type = ''none'')
   \<and> get_file_type ''application/pdf'' = ''FILE_TYPE_PDF''
   \<and> get_file_type ''text/plain'' = ''FILE_TYPE_TEXT''
   \<and> get_file_type ''text/markdown'' = ''FILE_TYPE_MARKDOWN''
   \<and> get_file_type ''image/png'' = ''FILE_TYPE_PNG''
   \<and> get_file_type ''image/jpeg'' = ''FILE_TYPE_JPEG''
   \<and> get_file_type ''text/html'' = ''FILE_TYPE_HTML''
   \<and> get_file_type ''application/vnd.openxmlformats-officedocument.wordprocessingml.document''
         = ''FILE_TYPE_DOCX''
   \<and> get_file_type ''application/msword'' = ''FILE_TYPE_DOC''
   \<and> get_file_type ''application/vnd.ms-powerpoint'' = ''FILE_TYPE_PPT''
   \<and> get_file_type ''application/vnd.openxmlformats-officedocument.presentationml.presentation''
         = ''FILE_TYPE_PPTX''
   \<and> get_file_type ''application/vnd.ms-excel'' = ''FILE_TYPE_XLS''
   \<and> get_file_type ''application/vnd.openxmlformats-officedocument.spreadsheetml.sheet''
         = ''FILE_TYPE_XLSX''
   \<and> get_file_type ''image/jpg'' = ''FILE_TYPE_JPG''"
proof -
  have "mime_type \<notin> fst ` set mime_type_to_file_type \<longrightarrow> get_file_type mime_type = ''none''"
    by (simp add: get_file_type_def map_of_eq_None_iff[THEN iffD2])
  moreover have "get_file_type ''application/pdf'' = ''FILE_TYPE_PDF''"
    by (simp add: get_file_type_def mime_type_to_file_type_def)
  moreover have "get_file_type ''text/plain'' = ''FILE_TYPE_TEXT''"
    by (simp add: get_file_type_def mime_type_to_file_type_def)
  moreover have "get_file_type ''text/markdown'' = ''FILE_TYPE_MARKDOWN''"
    by (simp add: get_file_type_def mime_type_to_file_type_def)
  moreover have "get_file_type ''image/png'' = ''FILE_TYPE_PNG''"
    by (simp add: get_file_type_def mime_type_to_file_type_def)
  moreover have "get_file_type ''image/jpeg'' = ''FILE_TYPE_JPEG''"
    by (simp add: get_file_type_def mime_type_to_file_type_def)
  moreover have "get_file_type ''text/html'' = ''FILE_TYPE_HTML''"
    by (simp add: get_file_type_def mime_type_to_file_type_def)
  moreover have
    "get_file_type ''application/vnd.openxmlformats-officedocument.wordprocessingml.document''
       = ''FILE_TYPE_DOCX''"
    by (simp add: get_file_type_def mime_type_to_file_type_def)
  moreover have "get_file_type ''application/msword'' = ''FILE_TYPE_DOC''"
    by (simp add: get_file_type_def mime_type_to_file_type_def)
  moreover have "get_file_type ''application/vnd.ms-powerpoint'' = ''FILE_TYPE_PPT''"
    by (simp add: get_file_type_def mime_type_to_file_type_def)
  moreover have
    "get_file_type ''application/vnd.openxmlformats-officedocument.presentationml.presentation''
       = ''FILE_TYPE_PPTX''"
    by (simp add: get_file_type_def mime_type_to_file_type_def)
  moreover have "get_file_type ''application/vnd.ms-excel'' = ''FILE_TYPE_XLS''"
    by (simp add: get_file_type_def mime_type_to_file_type_def)
  moreover have
    "get_file_type ''application/vnd.openxmlformats-officedocument.spreadsheetml.sheet''
       = ''FILE_TYPE_XLSX''"
    by (simp add: get_file_type_def mime_type_to_file_type_def)
  moreover have "get_file_type ''image/jpg'' = ''FILE_TYPE_JPG''"
    by (simp add: get_file_type_def mime_type_to_file_type_def)
  ultimately show ?thesis by blast
qed

theorem get_file_type_table_witness:
  "''application/zip'' \<notin> fst ` set mime_type_to_file_type
   \<and> get_file_type ''application/zip'' = ''none''"
  using get_file_type_table [of "''application/zip''"]
  by (simp add: mime_type_to_file_type_def)


section \<open>The ledger\<close>

lemma append_file_id_list:
  assumes "load_uploaded_files lib fs path = Inr (JArr xs)"
  shows "append_file_id lib fs file_id path =
           Inr (fs(path \<mapsto> Doc (JObj [(''data'',
                  JArr (if JStr file_id \<in> set xs then xs else xs @ [JStr file_id]))])))"
  using assms by (simp add: append_file_id_def save_uploaded_files_def)

lemma load_after_save:
  "load_uploaded_files lib (fs(path \<mapsto> Doc (JObj [(''data'', v)]))) path = Inr v"
  by (simp add: load_uploaded_files_def json_load_def)

text \<open>
  C6: when the ledger file at \<open>path\<close> holds the list \<open>xs\<close> (an absent file holds the empty
  list), append_file_id succeeds; the list read back is \<open>xs\<close> itself when the id is already
  in it, and \<open>xs\<close> with the id added at the end otherwise; the new list has been written to
  the file when the call returns and no other file has changed; and appending the same id
  again leaves the files as they are.
\<close>

theorem append_file_id_idempotent:
  assumes "load_uploaded_files lib fs path = Inr (JArr xs)"
  shows "\<exists>fs'. append_file_id lib fs file_id path = Inr fs'
           \<and> load_uploaded_files lib fs' path
               = Inr (JArr (if JStr file_id \<in> set xs then xs else xs @ [JStr file_id]))
           \<and> fs' path = Some (Doc (JObj [(''data'',
                 JArr (if JStr file_id \<in> set xs then xs else xs @ [JStr file_id]))]))
           \<and> (\<forall>p. p \<noteq> path \<longrightarrow> fs' p = fs p)
           \<and> append_file_id lib fs' file_id path = Inr fs'"
proof -
  let ?ys = "if JStr file_id \<in> set xs then xs else xs @ [JStr file_id]"
  let ?fs' = "fs(path \<mapsto> Doc (JObj [(''data'', JArr ?ys)]))"
  have 1: "append_file_id lib fs file_id path = Inr ?fs'"
    using assms by (rule append_file_id_list)
  have 2: "load_uploaded_files lib ?fs' path = Inr (JArr ?ys)"
    by (rule load_after_save)
  have "JStr file_id \<in> set ?ys" by simp
  with append_file_id_list[OF 2, of file_id]
  have 3: "append_file_id lib ?fs' file_id path = Inr ?fs'" by simp
  from 1 2 3 show ?thesis by simp
qed

theorem append_file_id_idempotent_witness:
  "load_uploaded_files lib0 Map.empty UPLOADED_FILE_PATH = Inr (JArr [])
   \<and> (\<exists>fs'. append_file_id lib0 Map.empty ''f1'' UPLOADED_FILE_PATH = Inr fs'
         \<and> load_uploaded_files lib0 fs' UPLOADED_FILE_PATH = Inr (JArr [JStr ''f1''])
         \<and> append_file_id lib0 fs' ''f1'' UPLOADED_FILE_PATH = Inr fs')"
proof -
  have h: "load_uploaded_files lib0 Map.empty UPLOADED_FILE_PATH = Inr (JArr [])"
    by (simp add: load_uploaded_files_def)
  from append_file_id_idempotent [OF h, of "''f1''"] h show ?thesis by auto
qed


section \<open>The ways an iteration ends\<close>

lemma append_file_id_writes:
  "append_file_id lib fs file_id path = Inr fs' \<Longrightarrow> \<exists>d. fs' = fs(path \<mapsto> Doc d)"
  by (auto simp: append_file_id_def save_uploaded_files_def split: sum.splits bool.splits)

lemma tail_ok_after:
  "tail_ok file_id lname k fs res \<Longrightarrow> tail_ok file_id lname k fs (after [EvCall u d] res)"
  unfolding tail_ok_def after_def by (cases res) simp

lemma tail_ok_failure:
  assumes "rs lname = File k" "k \<in> dom fs" "out = Upload_Failed \<or> out = Process_Failed"
  shows "tail_ok file_id lname k fs (tag out (record_failure lib rs fs file_id lname))"
proof (cases "append_file_id lib fs file_id FAILED_FILE_PATH")
  case (Inl e)
  then show ?thesis
    by (simp add: tail_ok_def tag_def record_failure_def)
next
  case (Inr fs1)
  then obtain d where "fs1 = fs(FAILED_FILE_PATH \<mapsto> Doc d)"
    using append_file_id_writes by blast
  with Inr assms show ?thesis
    by (auto simp: tail_ok_def tag_def record_failure_def os_remove_def)
qed

lemma tail_ok_success:
  assumes "rs lname = File k" "k \<in> dom fs"
  shows "tail_ok file_id lname k fs (tag Uploaded (record_success lib rs fs file_id lname))"
proof (cases "append_file_id lib (fs(k := None)) file_id UPLOADED_FILE_PATH")
  case (Inl e)
  with assms show ?thesis
    by (auto simp: tail_ok_def tag_def record_success_def os_remove_def)
next
  case (Inr fs2)
  then obtain d where "fs2 = (fs(k := None))(UPLOADED_FILE_PATH \<mapsto> Doc d)"
    using append_file_id_writes by blast
  with Inr assms show ?thesis
    by (auto simp: tail_ok_def tag_def record_success_def os_remove_def)
qed

lemma tail_ok_error: "tail_ok file_id lname k fs (Inl e, fs, [])"
  by (simp add: tail_ok_def)

lemma tail_ok_trigger:
  assumes "rs lname = File k" "k \<in> dom fs"
  shows "tail_ok file_id lname k fs (trigger_stage call lib rs fs file_id lname file_uid)"
  unfolding trigger_stage_def Let_def
  by (intro tail_ok_after)
     (auto simp: tail_ok_error tail_ok_failure tail_ok_success assms split: sum.splits)

lemma tail_ok_upload:
  assumes "rs lname = File k" "k \<in> dom fs"
  shows "tail_ok file_id lname k fs (upload_stage call lib rs fs file_id lname file_type)"
proof (cases "process_file_data lib rs fs lname file_type")
  case (Inl e)
  then show ?thesis by (simp add: upload_stage_def tail_ok_error)
next
  case (Inr file_data)
  then show ?thesis
    unfolding upload_stage_def
    apply simp
    apply (rule tail_ok_after)
    apply (auto simp: tail_ok_error tail_ok_failure tail_ok_trigger assms split: sum.splits)
    done
qed

lemma tail_ok_download:
  assumes "locate w lname = File k"
  shows "\<exists>written r fs' evs'.
     download_stage call lib w fs file_id lname file_type request = (r, fs', EvCreate lname # evs')
     \<and> tail_ok file_id lname k (fs(k \<mapsto> Text written)) (r, fs', evs')"
proof (cases "next_chunks (media w request) []")
  case (Pair x written)
  show ?thesis
  proof (cases x)
    case None
    obtain r fs' evs' where
      u: "upload_stage call lib (locate w) (fs(k \<mapsto> Text written)) file_id lname file_type
            = (r, fs', evs')"
      by (cases "upload_stage call lib (locate w) (fs(k \<mapsto> Text written)) file_id lname file_type")
         auto
    have "tail_ok file_id lname k (fs(k \<mapsto> Text written)) (r, fs', evs')"
      using tail_ok_upload[of "locate w" lname k "fs(k \<mapsto> Text written)" file_id call lib file_type]
        u assms by simp
    with Pair None u assms show ?thesis
      by (auto simp: download_stage_def after_def)
  next
    case (Some e)
    with Pair assms have "download_stage call lib w fs file_id lname file_type request
                      = (Inl e, fs(k \<mapsto> Text written), EvCreate lname # [])"
      by (simp add: download_stage_def after_def)
    then show ?thesis
      using tail_ok_error[of file_id lname k "fs(k \<mapsto> Text written)" e] by blast
  qed
qed

lemma download_not_opened:
  assumes "locate w lname = Dir \<or> locate w lname = Bad"
  shows "\<exists>e. download_stage call lib w fs file_id lname file_type request = (Inl e, fs, [])"
  using assms by (auto simp: download_stage_def)

lemma try_body_cases:
  assumes "try_body call lib w item loc fs = (r, loc', fs', evs)"
  shows "(evs = [] \<and> loc' = loc \<and> fs' = fs \<and> (r = Inr Already_Uploaded \<or> (\<exists>e. r = Inl e)))
       \<or> (evs = [EvMeta (item_id item)] \<and> loc' = loc \<and> fs' = fs \<and> (\<exists>e. r = Inl e))
       \<or> (\<exists>md. files_get w (item_id item) = Inr md \<and> bound loc' md \<and>
            ((evs = [EvMeta (item_id item)] \<and> fs' = fs \<and> (r = Inr Folder \<or> (\<exists>e. r = Inl e)))
           \<or> (evs = [EvMeta (item_id item), EvLedger UNSUPPORTED_FILE_PATH (item_id item)]
                \<and> r = Inr Unsupported \<and> classified md = ''none''
                \<and> (\<exists>d. fs' = fs(UNSUPPORTED_FILE_PATH \<mapsto> Doc d)))
           \<or> (\<exists>k written evs'. locate w (local_name md) = File k
                \<and> evs = EvMeta (item_id item) # EvCreate (local_name md) # evs'
                \<and> tail_ok (item_id item) (local_name md) k (fs(k \<mapsto> Text written))
                      (r, fs', evs'))))"
proof (cases "load_uploaded_files lib fs UPLOADED_FILE_PATH")
  case (Inl e)
  with assms show ?thesis by (auto simp: try_body_def)
next
  case up: (Inr uploaded_files)
  show ?thesis
  proof (cases "py_in (item_id item) uploaded_files")
    case (Inl e)
    with up assms show ?thesis by (auto simp: try_body_def)
  next
    case pin: (Inr b)
    show ?thesis
    proof (cases b)
      case True
      with up pin assms show ?thesis by (auto simp: try_body_def)
    next
      case False
      show ?thesis
      proof (cases "files_get w (item_id item)")
        case (Inl e)
        with up pin False assms show ?thesis by (auto simp: try_body_def)
      next
        case md: (Inr md)
        show ?thesis
        proof (cases "mimeType md = ''application/vnd.google-apps.folder''")
          case True
          with up pin False md assms show ?thesis
            by (auto simp: try_body_def bound_def local_name_def Let_def)
        next
          case nf: False
          define mt where "mt = (if startswith (mimeType md) ''application/vnd.google-apps.''
                                  then ''application/pdf'' else mimeType md)"
          show ?thesis
          proof (cases "get_file_type mt = ''none''")
            case True
            show ?thesis
            proof (cases "append_file_id lib fs (item_id item) UNSUPPORTED_FILE_PATH")
              case (Inl e)
              with up pin False md nf True assms show ?thesis
                by (auto simp: try_body_def bound_def local_name_def Let_def mt_def)
            next
              case (Inr fs1)
              then obtain d where "fs1 = fs(UNSUPPORTED_FILE_PATH \<mapsto> Doc d)"
                using append_file_id_writes by blast
              with Inr up pin False md nf True assms show ?thesis
                by (auto simp: try_body_def bound_def local_name_def Let_def mt_def classified_def)
            qed
          next
            case sup: False
            define rq where "rq = (if startswith (mimeType md) ''application/vnd.google-apps.''
                                  then ExportMedia (item_id item) ''application/pdf''
                                  else GetMedia (item_id item))"
            show ?thesis
            proof (cases "locate w (local_name md)")
              case (File k)
              from tail_ok_download[OF File] obtain written r0 fs0 evs0 where
                d: "download_stage (call (net w)) lib w fs (item_id item) (local_name md)
                      (get_file_type mt) rq = (r0, fs0, EvCreate (local_name md) # evs0)"
                and t: "tail_ok (item_id item) (local_name md) k (fs(k \<mapsto> Text written))
                          (r0, fs0, evs0)"
                by blast
              from up pin False md nf sup assms d
              have "r = r0 \<and> fs' = fs0
                    \<and> evs = EvMeta (item_id item) # EvCreate (local_name md) # evs0
                    \<and> bound loc' md"
                by (auto simp: try_body_def bound_def local_name_def Let_def mt_def rq_def)
              with t md File show ?thesis by blast
            next
              case Dir
              then obtain e where
                d: "download_stage (call (net w)) lib w fs (item_id item) (local_name md)
                      (get_file_type mt) rq = (Inl e, fs, [])"
                using download_not_opened by blast
              from up pin False md nf sup assms d
              have "r = Inl e \<and> fs' = fs \<and> evs = [EvMeta (item_id item)] \<and> bound loc' md"
                by (auto simp: try_body_def bound_def local_name_def Let_def mt_def rq_def)
              with md show ?thesis by blast
            next
              case Bad
              then obtain e where
                d: "download_stage (call (net w)) lib w fs (item_id item) (local_name md)
                      (get_file_type mt) rq = (Inl e, fs, [])"
                using download_not_opened by blast
              from up pin False md nf sup assms d
              have "r = Inl e \<and> fs' = fs \<and> evs = [EvMeta (item_id item)] \<and> bound loc' md"
                by (auto simp: try_body_def bound_def local_name_def Let_def mt_def rq_def)
              with md show ?thesis by blast
            qed
          qed
        qed
      qed
    qed
  qed
qed

lemma calls_then:
  "dropWhile is_call evs = suf \<Longrightarrow> \<exists>cs. evs = cs @ suf \<and> list_all is_call cs"
  by (metis takeWhile_dropWhile_id list_all_iff set_takeWhileD)

lemma process_item_ok:
  "try_body call lib w item loc fs = (Inr out, loc0, fs0, evs0)
   \<Longrightarrow> process_item call lib w item loc fs = (Inr out, loc0, fs0, evs0)"
  by (simp add: process_item_def)

lemma process_item_raise:
  assumes "try_body call lib w item loc fs = (Inl e, loc0, fs0, evs0)"
    and "process_item call lib w item loc fs = (r, loc', fs', evs)"
  shows "loc' = loc0 \<and> handled (locate w) loc0 fs0 evs0 (r, fs', evs)"
  using assms
  by (auto simp: process_item_def handled_def os_remove_def os_path_exists_def
           split: option.splits if_splits target.splits)

lemma created_exception:
  assumes "handled rs loc0 (fs(k \<mapsto> Text written))
             (EvMeta i # EvCreate (local_name md) # cs) (r, fs', evs)"
    and "bound loc0 md" "rs (local_name md) = File k"
  shows "created i md k fs cs written (r, fs', evs)"
  using assms by (simp add: handled_def bound_def created_def)

lemma created_exception_removed:
  assumes "handled rs loc0 ((fs(k \<mapsto> Text written))(k := None))
             (EvMeta i # EvCreate (local_name md) # cs @ [EvRemove (local_name md)]) (r, fs', evs)"
    and "bound loc0 md" "rs (local_name md) = File k"
  shows "created i md k fs cs written (r, fs', evs)"
  using assms by (simp add: handled_def bound_def created_def)

lemma created_failed:
  assumes "r = Inr Upload_Failed \<or> r = Inr Process_Failed"
  shows "created i md k fs cs written
           (r, (fs(k \<mapsto> Text written, FAILED_FILE_PATH \<mapsto> Doc d))(k := None),
            EvMeta i # EvCreate (local_name md) # cs
              @ [EvLedger FAILED_FILE_PATH i, EvRemove (local_name md)])"
  using assms unfolding created_def by auto

lemma created_uploaded:
  "created i md k fs cs written
           (Inr Uploaded, (fs(k \<mapsto> Text written))(k := None, UPLOADED_FILE_PATH \<mapsto> Doc d),
            EvMeta i # EvCreate (local_name md) # cs
              @ [EvRemove (local_name md), EvLedger UPLOADED_FILE_PATH i])"
  unfolding created_def by auto

lemma tail_ok_elim:
  assumes "tail_ok file_id lname k fs (r, fs', evs)"
  obtains
    (pending) e cs where "r = Inl e" "fs' = fs" "evs = cs" "list_all is_call cs"
  | (removed) e cs where "r = Inl e" "fs' = fs(k := None)" "evs = cs @ [EvRemove lname]"
      "list_all is_call cs"
  | (failed) d cs where "r = Inr Upload_Failed \<or> r = Inr Process_Failed"
      "fs' = (fs(FAILED_FILE_PATH \<mapsto> Doc d))(k := None)"
      "evs = cs @ [EvLedger FAILED_FILE_PATH file_id, EvRemove lname]" "list_all is_call cs"
  | (uploaded) d cs where "r = Inr Uploaded"
      "fs' = (fs(k := None))(UPLOADED_FILE_PATH \<mapsto> Doc d)"
      "evs = cs @ [EvRemove lname, EvLedger UPLOADED_FILE_PATH file_id]" "list_all is_call cs"
proof -
  from assms consider
      e where "r = Inl e" "fs' = fs" "dropWhile is_call evs = []"
    | e where "r = Inl e" "fs' = fs(k := None)" "dropWhile is_call evs = [EvRemove lname]"
    | d where "r = Inr Upload_Failed \<or> r = Inr Process_Failed"
        "fs' = (fs(FAILED_FILE_PATH \<mapsto> Doc d))(k := None)"
        "dropWhile is_call evs = [EvLedger FAILED_FILE_PATH file_id, EvRemove lname]"
    | d where "r = Inr Uploaded" "fs' = (fs(k := None))(UPLOADED_FILE_PATH \<mapsto> Doc d)"
        "dropWhile is_call evs = [EvRemove lname, EvLedger UPLOADED_FILE_PATH file_id]"
    unfolding tail_ok_def by fastforce
  then show thesis
  proof cases
    case 1
    from calls_then[OF 1(3)] obtain cs where "evs = cs" "list_all is_call cs" by auto
    with 1 pending show thesis by blast
  next
    case 2
    from calls_then[OF 2(3)] obtain cs where "evs = cs @ [EvRemove lname]" "list_all is_call cs" by auto
    with 2 removed show thesis by blast
  next
    case 3
    from calls_then[OF 3(3)] obtain cs where
      "evs = cs @ [EvLedger FAILED_FILE_PATH file_id, EvRemove lname]" "list_all is_call cs" by auto
    with 3 failed show thesis by blast
  next
    case 4
    from calls_then[OF 4(3)] obtain cs where
      "evs = cs @ [EvRemove lname, EvLedger UPLOADED_FILE_PATH file_id]" "list_all is_call cs" by auto
    with 4 uploaded show thesis by blast
  qed
qed

lemma process_item_created:
  assumes tb: "try_body call lib w item loc fs
                 = (r0, loc0, fs0, EvMeta i # EvCreate (local_name md) # evs1)"
    and b: "bound loc0 md"
    and t: "tail_ok i (local_name md) k (fs(k \<mapsto> Text written)) (r0, fs0, evs1)"
    and l: "locate w (local_name md) = File k"
    and p: "process_item call lib w item loc fs = (r, loc', fs', evs)"
  shows "loc' = loc0 \<and> (\<exists>cs. list_all is_call cs \<and> created i md k fs cs written (r, fs', evs))"
  using t
proof (cases rule: tail_ok_elim)
  case (pending e cs)
  from process_item_raise[OF tb[unfolded pending(1)] p]
  have "loc' = loc0" and h: "handled (locate w) loc0 fs0 (EvMeta i # EvCreate (local_name md) # evs1) (r, fs', evs)"
    by simp_all
  from h pending have "created i md k fs cs written (r, fs', evs)"
    using created_exception[where rs="locate w", OF _ b l] by simp
  with \<open>loc' = loc0\<close> pending show ?thesis by blast
next
  case (removed e cs)
  from process_item_raise[OF tb[unfolded removed(1)] p]
  have "loc' = loc0" and h: "handled (locate w) loc0 fs0 (EvMeta i # EvCreate (local_name md) # evs1) (r, fs', evs)"
    by simp_all
  from h removed have "created i md k fs cs written (r, fs', evs)"
    using created_exception_removed[where rs="locate w", OF _ b l] by simp
  with \<open>loc' = loc0\<close> removed show ?thesis by blast
next
  case (failed d cs)
  from failed(1) obtain out where out: "r0 = Inr out" by blast
  from process_item_ok[OF tb[unfolded out]] p out
  have eq: "r = r0" "loc' = loc0" "fs' = fs0" "evs = EvMeta i # EvCreate (local_name md) # evs1"
    by simp_all
  from failed(1) have "created i md k fs cs written (r, fs', evs)"
    unfolding eq failed(2,3) by (rule created_failed)
  with eq failed show ?thesis by blast
next
  case (uploaded d cs)
  from process_item_ok[OF tb[unfolded uploaded(1)]] p uploaded(1)
  have eq: "r = Inr Uploaded" "loc' = loc0" "fs' = fs0" "evs = EvMeta i # EvCreate (local_name md) # evs1"
    by simp_all
  have "created i md k fs cs written (r, fs', evs)"
    unfolding eq uploaded(2,3) by (rule created_uploaded)
  with eq uploaded show ?thesis by blast
qed

lemma process_item_cases:
  assumes p: "process_item call lib w item loc fs = (r, loc', fs', evs)"
  shows "(r = Inr Already_Uploaded \<and> evs = [] \<and> loc' = loc \<and> fs' = fs)
       \<or> (loc' = loc \<and> (handled (locate w) loc fs [] (r, fs', evs)
                        \<or> handled (locate w) loc fs [EvMeta (item_id item)] (r, fs', evs)))
       \<or> (\<exists>md. files_get w (item_id item) = Inr md \<and> bound loc' md \<and>
            ((r = Inr Folder \<and> evs = [EvMeta (item_id item)] \<and> fs' = fs)
           \<or> handled (locate w) loc' fs [EvMeta (item_id item)] (r, fs', evs)
           \<or> (r = Inr Unsupported \<and> classified md = ''none''
                \<and> evs = [EvMeta (item_id item), EvLedger UNSUPPORTED_FILE_PATH (item_id item)]
                \<and> (\<exists>d. fs' = fs(UNSUPPORTED_FILE_PATH \<mapsto> Doc d)))
           \<or> (\<exists>k cs written. locate w (local_name md) = File k \<and> list_all is_call cs
                \<and> created (item_id item) md k fs cs written (r, fs', evs))))"
    (is "?A \<or> ?B \<or> ?C")
proof -
  obtain r0 loc0 fs0 evs0 where tb: "try_body call lib w item loc fs = (r0, loc0, fs0, evs0)"
    by (cases "try_body call lib w item loc fs") auto
  note c = try_body_cases[OF tb]
  {
    assume a: "evs0 = []" "loc0 = loc" "fs0 = fs" "r0 = Inr Already_Uploaded"
    from process_item_ok[OF tb[unfolded a(4)]] p a have ?A by simp
  }
  moreover
  {
    fix e assume a: "evs0 = [] \<or> evs0 = [EvMeta (item_id item)]" "loc0 = loc" "fs0 = fs" "r0 = Inl e"
    from process_item_raise[OF tb[unfolded a(4)] p]
    have "loc' = loc0 \<and> handled (locate w) loc0 fs0 evs0 (r, fs', evs)" by simp
    with a have ?B by auto
  }
  moreover
  {
    fix md assume a: "files_get w (item_id item) = Inr md" "bound loc0 md"
      "evs0 = [EvMeta (item_id item)]" "fs0 = fs" "r0 = Inr Folder"
    from process_item_ok[OF tb[unfolded a(5)]] p a have ?C by auto
  }
  moreover
  {
    fix md e assume a: "files_get w (item_id item) = Inr md" "bound loc0 md"
      "evs0 = [EvMeta (item_id item)]" "fs0 = fs" "r0 = Inl e"
    from process_item_raise[OF tb[unfolded a(5)] p]
    have "loc' = loc0 \<and> handled (locate w) loc0 fs0 evs0 (r, fs', evs)" by simp
    with a have ?C by auto
  }
  moreover
  {
    fix md d assume a: "files_get w (item_id item) = Inr md" "bound loc0 md"
      "evs0 = [EvMeta (item_id item), EvLedger UNSUPPORTED_FILE_PATH (item_id item)]"
      "r0 = Inr Unsupported" "fs0 = fs(UNSUPPORTED_FILE_PATH \<mapsto> Doc d)" "classified md = ''none''"
    from process_item_ok[OF tb[unfolded a(4)]] p a have ?C by auto
  }
  moreover
  {
    fix md k written evs1
    assume a: "files_get w (item_id item) = Inr md" "bound loc0 md"
      "evs0 = EvMeta (item_id item) # EvCreate (local_name md) # evs1"
      "tail_ok (item_id item) (local_name md) k (fs(k \<mapsto> Text written)) (r0, fs0, evs1)"
      "locate w (local_name md) = File k"
    from process_item_created[OF tb[unfolded a(3)] a(2) a(4) a(5) p] a(1,2,5) have ?C by blast
  }
  ultimately show ?thesis using c by blast
qed

lemma calls_no_create: "list_all is_call cs \<Longrightarrow> EvCreate q \<notin> set cs"
  by (auto simp: list_all_iff)

lemma calls_no_ledger: "list_all is_call cs \<Longrightarrow> EvLedger p i \<notin> set cs"
  by (auto simp: list_all_iff)

lemma handled_events:
  "handled rs loc fs evs0 (r, fs', evs) \<Longrightarrow> evs = evs0 \<or> (\<exists>l. evs = evs0 @ [EvRemove l])"
  by (auto simp: handled_def split: if_splits target.splits)

lemma handled_outcome:
  "handled rs loc fs evs0 (r, fs', evs)
   \<Longrightarrow> (\<exists>e. r = Inl e) \<or> (\<exists>e. r = Inr (Exception_Logged e))"
  by (auto simp: handled_def split: if_splits target.splits)

lemma created_shape:
  assumes "created i md k fs cs written (r, fs', evs)" "list_all is_call cs"
  shows "\<exists>post. evs = [EvMeta i] @ EvCreate (local_name md) # post
           \<and> EvRemove (local_name md) \<in> set post
           \<and> (\<forall>q. EvCreate q \<notin> set ([EvMeta i] @ post))"
  using assms calls_no_create[OF assms(2)] unfolding created_def by auto

lemma created_dom:
  assumes "created i md k fs cs written (r, fs', evs)"
  shows "k \<noteq> UPLOADED_FILE_PATH \<longrightarrow> k \<notin> dom fs'"
  using assms unfolding created_def by auto


section \<open>The example run\<close>

lemmas ev_defs = f1_def pdf_meta_def upload_ok_def process_ok_def scripted_def world_ok_def locals0_def lib0_def
  process_item_def try_body_def download_stage_def upload_stage_def trigger_stage_def
  record_failure_def record_success_def tag_def after_def get_file_uid_def get_process_status_def
  call_catalog_api_def raise_for_status_def response_json_def process_file_data_def file_read_def
  append_file_id_def load_uploaded_files_def save_uploaded_files_def os_remove_def
  os_path_exists_def json_load_def
  startswith_def get_file_type_def mime_type_to_file_type_def
  UPLOADED_FILE_PATH_def FAILED_FILE_PATH_def UNSUPPORTED_FILE_PATH_def UPLOAD_FILES_URL_def PROCESS_FILES_URL_def

lemma run_ok:
  "process_item call_catalog_api lib0 world_ok f1 locals0 Map.empty =
     (Inr Uploaded, \<lparr>file_name = Some ''report.pdf'', local_file_name = Some ''report.pdf''\<rparr>,
      [UPLOADED_FILE_PATH \<mapsto> Doc (JObj [(''data'', JArr [JStr ''f1''])])],
      [EvMeta ''f1'', EvCreate ''report.pdf'',
       EvCall UPLOAD_FILES_URL (JObj [(''name'', JStr ''report.pdf''), (''type'', JStr ''FILE_TYPE_PDF''),
                                      (''content'', JStr ''%PDF'')]),
       EvCall PROCESS_FILES_URL (JObj [(''fileUids'', JArr [JStr ''u1''])]),
       EvRemove ''report.pdf'', EvLedger UPLOADED_FILE_PATH ''f1''])"
  by (simp add: ev_defs Let_def)


section \<open>Cleanup of the local file\<close>

text \<open>
  In every iteration, whatever its outcome, a local file that the iteration created is
  removed later in the same iteration and not created again by the download. When the
  iteration ends, nothing exists under the local path unless the path names the file of
  the Uploaded ledger.
\<close>

lemma created_file_removed:
  assumes "process_item call lib w item loc fs = (r, loc', fs', evs)"
    and "EvCreate p \<in> set evs"
  shows "(\<exists>pre post. evs = pre @ EvCreate p # post \<and> EvRemove p \<in> set post
            \<and> (\<forall>q. EvCreate q \<notin> set (pre @ post)))
         \<and> (locate w p \<noteq> File UPLOADED_FILE_PATH \<longrightarrow> \<not> os_path_exists (locate w) fs' p)"
proof -
  from process_item_cases[OF assms(1)] consider
      (plain) "evs = [] \<or> evs = [EvMeta (item_id item)]
               \<or> evs = [EvMeta (item_id item), EvLedger UNSUPPORTED_FILE_PATH (item_id item)]"
    | (handler) loc1 fs1 evs0 where "handled (locate w) loc1 fs1 evs0 (r, fs', evs)"
        "evs0 = [] \<or> evs0 = [EvMeta (item_id item)]"
    | (made) md k cs written where "locate w (local_name md) = File k" "list_all is_call cs"
        "created (item_id item) md k fs cs written (r, fs', evs)"
    by blast
  then show ?thesis
  proof cases
    case plain
    with assms(2) show ?thesis by auto
  next
    case handler
    from handled_events[OF handler(1)] handler(2) assms(2) show ?thesis by auto
  next
    case made
    from created_shape[OF made(3,2)] obtain post where
      e: "evs = [EvMeta (item_id item)] @ EvCreate (local_name md) # post"
      and r: "EvRemove (local_name md) \<in> set post"
      and n: "\<forall>q. EvCreate q \<notin> set ([EvMeta (item_id item)] @ post)"
      by blast
    from e n assms(2) have p: "p = local_name md" by auto
    from created_dom[OF made(3)] made(1) p
    have "locate w p \<noteq> File UPLOADED_FILE_PATH \<longrightarrow> \<not> os_path_exists (locate w) fs' p"
      by (auto simp: os_path_exists_def)
    with p e r n show ?thesis by blast
  qed
qed



section \<open>The order of the ledger append and the removal\<close>

text \<open>
  C3, as stated, fails on the success path: in the example run the iteration ends as
  Uploaded and the local file is removed before any ledger append.
\<close>

theorem removal_before_ledger_counterexample:
  "fst (process_item call_catalog_api lib0 world_ok f1 locals0 Map.empty) = Inr Uploaded
   \<and> \<not> removals_recorded False
         (snd (snd (snd (process_item call_catalog_api lib0 world_ok f1 locals0 Map.empty))))"
  by (simp add: run_ok)

lemma handled_no_ledger:
  assumes "handled rs loc1 fs1 evs0 (r, fs', evs)" "evs0 = [] \<or> evs0 = [EvMeta i]"
  shows "(\<forall>p k. EvLedger p k \<notin> set evs) \<and> (\<forall>p. EvCreate p \<notin> set evs)"
  using handled_events[OF assms(1)] assms(2) by auto

text \<open>
  C3, amended: an iteration that ends as Uploaded has created the local file, removed it
  and after that appended the id to the Uploaded ledger; one that ends as an upload or
  processing failure has created the file, appended the id to the Failed ledger and after
  that removed the file; one that ends as Unsupported has only fetched the metadata and
  appended the id to the Unsupported ledger; one that ends in the exception handler has
  written no ledger and has removed the local file if it created it.
\<close>

theorem ledger_and_removal_order:
  assumes "process_item call lib w item loc fs = (Inr out, loc', fs', evs)"
  shows "(out = Uploaded \<longrightarrow>
            (\<exists>l cs. list_all is_call cs \<and>
               evs = EvMeta (item_id item) # EvCreate l # cs
                       @ [EvRemove l, EvLedger UPLOADED_FILE_PATH (item_id item)]))
       \<and> (out = Upload_Failed \<or> out = Process_Failed \<longrightarrow>
            (\<exists>l cs. list_all is_call cs \<and>
               evs = EvMeta (item_id item) # EvCreate l # cs
                       @ [EvLedger FAILED_FILE_PATH (item_id item), EvRemove l]))
       \<and> (out = Unsupported \<longrightarrow>
            evs = [EvMeta (item_id item), EvLedger UNSUPPORTED_FILE_PATH (item_id item)])
       \<and> ((\<exists>e. out = Exception_Logged e) \<longrightarrow>
            (\<forall>p k. EvLedger p k \<notin> set evs)
            \<and> (\<forall>p. EvCreate p \<in> set evs \<longrightarrow> EvRemove p \<in> set evs))"
proof -
  from process_item_cases[OF assms] consider
      (skip) "out = Already_Uploaded" "evs = []"
    | (folder) "out = Folder" "evs = [EvMeta (item_id item)]"
    | (unsupported) "out = Unsupported"
        "evs = [EvMeta (item_id item), EvLedger UNSUPPORTED_FILE_PATH (item_id item)]"
    | (handler) loc1 fs1 evs0 where "handled (locate w) loc1 fs1 evs0 (Inr out, fs', evs)"
        "evs0 = [] \<or> evs0 = [EvMeta (item_id item)]"
    | (made) md k cs written where "list_all is_call cs"
        "created (item_id item) md k fs cs written (Inr out, fs', evs)"
    by blast
  then show ?thesis
  proof cases
    case skip
    then show ?thesis by simp
  next
    case folder
    then show ?thesis by simp
  next
    case unsupported
    then show ?thesis by simp
  next
    case handler
    from handled_outcome[OF handler(1)] obtain e where "out = Exception_Logged e" by auto
    with handled_no_ledger[OF handler] show ?thesis by simp
  next
    case made
    from made(2) consider
        (exc) e where "out = Exception_Logged e"
          "evs = EvMeta (item_id item) # EvCreate (local_name md) # cs @ [EvRemove (local_name md)]"
      | (failed) "out = Upload_Failed \<or> out = Process_Failed"
          "evs = EvMeta (item_id item) # EvCreate (local_name md) # cs
                   @ [EvLedger FAILED_FILE_PATH (item_id item), EvRemove (local_name md)]"
      | (uploaded) "out = Uploaded"
          "evs = EvMeta (item_id item) # EvCreate (local_name md) # cs
                   @ [EvRemove (local_name md), EvLedger UPLOADED_FILE_PATH (item_id item)]"
      unfolding created_def by auto
    then show ?thesis
    proof cases
      case exc
      with calls_no_create[OF made(1)] calls_no_ledger[OF made(1)] show ?thesis by auto
    next
      case failed
      with made(1) show ?thesis by auto
    next
      case uploaded
      with made(1) show ?thesis by auto
    qed
  qed
qed

theorem ledger_and_removal_order_witness:
  "process_item call_catalog_api lib0 world_ok f1 locals0 Map.empty
     = (Inr Uploaded, \<lparr>file_name = Some ''report.pdf'', local_file_name = Some ''report.pdf''\<rparr>,
        [UPLOADED_FILE_PATH \<mapsto> Doc (JObj [(''data'', JArr [JStr ''f1''])])],
        [EvMeta ''f1'', EvCreate ''report.pdf'',
         EvCall UPLOAD_FILES_URL (JObj [(''name'', JStr ''report.pdf''), (''type'', JStr ''FILE_TYPE_PDF''),
                                      (''content'', JStr ''%PDF'')]),
         EvCall PROCESS_FILES_URL (JObj [(''fileUids'', JArr [JStr ''u1''])]),
         EvRemove ''report.pdf'', EvLedger UPLOADED_FILE_PATH ''f1''])
   \<and> (\<exists>l cs. list_all is_call cs \<and>
         [EvMeta ''f1'', EvCreate ''report.pdf'',
          EvCall UPLOAD_FILES_URL (JObj [(''name'', JStr ''report.pdf''), (''type'', JStr ''FILE_TYPE_PDF''),
                                      (''content'', JStr ''%PDF'')]),
          EvCall PROCESS_FILES_URL (JObj [(''fileUids'', JArr [JStr ''u1''])]),
          EvRemove ''report.pdf'', EvLedger UPLOADED_FILE_PATH ''f1'']
         = EvMeta ''f1'' # EvCreate l # cs @ [EvRemove l, EvLedger UPLOADED_FILE_PATH ''f1''])"
  using ledger_and_removal_order[OF run_ok] run_ok by (simp add: f1_def)


section \<open>Editor documents\<close>

lemma classified_editor:
  "startswith (mimeType md) ''application/vnd.google-apps.'' \<Longrightarrow> classified md = ''FILE_TYPE_PDF''"
  by (simp add: classified_def get_file_type_def mime_type_to_file_type_def)

lemma try_body_editor:
  assumes "load_uploaded_files lib fs UPLOADED_FILE_PATH = Inr up"
    and "py_in (item_id item) up = Inr False"
    and "files_get w (item_id item) = Inr md"
    and "startswith (mimeType md) ''application/vnd.google-apps.''"
    and "mimeType md \<noteq> ''application/vnd.google-apps.folder''"
  shows "try_body call lib w item loc fs =
           (case download_stage (call (net w)) lib w fs (item_id item) (name md @ ''.pdf'')
                   ''FILE_TYPE_PDF'' (ExportMedia (item_id item) ''application/pdf'') of
              (r, fs1, evs) \<Rightarrow>
                (r, \<lparr>file_name = Some (name md), local_file_name = Some (name md @ ''.pdf'')\<rparr>,
                 fs1, EvMeta (item_id item) # evs))"
proof -
  have "get_file_type ''application/pdf'' = ''FILE_TYPE_PDF''"
    by (simp add: get_file_type_def mime_type_to_file_type_def)
  with assms show ?thesis by (simp add: try_body_def Let_def)
qed

lemma editor_not_unsupported:
  assumes "files_get w (item_id item) = Inr md"
    and "startswith (mimeType md) ''application/vnd.google-apps.''"
    and "process_item call lib w item loc fs = (r, loc', fs', evs)"
  shows "r \<noteq> Inr Unsupported \<and> (\<forall>k. EvLedger UNSUPPORTED_FILE_PATH k \<notin> set evs)"
proof -
  have c: "classified md = ''FILE_TYPE_PDF''" using assms(2) by (rule classified_editor)
  have ne: "UPLOADED_FILE_PATH \<noteq> UNSUPPORTED_FILE_PATH" "FAILED_FILE_PATH \<noteq> UNSUPPORTED_FILE_PATH"
    by (simp_all add: UPLOADED_FILE_PATH_def UNSUPPORTED_FILE_PATH_def FAILED_FILE_PATH_def)
  from process_item_cases[OF assms(3)] assms(1) c consider
      (plain) "r = Inr Already_Uploaded \<or> r = Inr Folder" "evs = [] \<or> evs = [EvMeta (item_id item)]"
    | (handler) loc1 fs1 evs0 where "handled (locate w) loc1 fs1 evs0 (r, fs', evs)"
        "evs0 = [] \<or> evs0 = [EvMeta (item_id item)]"
    | (made) md' k cs written where "list_all is_call cs"
        "created (item_id item) md' k fs cs written (r, fs', evs)"
    by auto
  then show ?thesis
  proof cases
    case plain
    then show ?thesis by auto
  next
    case handler
    from handled_outcome[OF handler(1)] handled_no_ledger[OF handler] show ?thesis by auto
  next
    case made
    from made(2) calls_no_ledger[OF made(1)] ne show ?thesis
      unfolding created_def by auto
  qed
qed

text \<open>
  C10: take a descriptor whose metadata has a MIME type that starts with the editor prefix.
  If it is not a folder (and its id is not in the Uploaded ledger, so that the body gets
  that far), the body of the loop replaces the MIME type by \<open>application/pdf\<close> before it
  classifies: what it hands to the download is the export request for \<open>application/pdf\<close>,
  the local name with \<open>.pdf\<close> added, and the file type FILE_TYPE_PDF, which is what
  get_file_type gives for \<open>application/pdf\<close>. Whatever happens in the iteration, it does not
  end as Unsupported and appends no id to the Unsupported ledger.
\<close>

theorem editor_exported_as_pdf:
  assumes "files_get w (item_id item) = Inr md"
    and "startswith (mimeType md) ''application/vnd.google-apps.''"
  shows "get_file_type ''application/pdf'' = ''FILE_TYPE_PDF''
       \<and> (mimeType md \<noteq> ''application/vnd.google-apps.folder'' \<longrightarrow>
            (\<forall>up. load_uploaded_files lib fs UPLOADED_FILE_PATH = Inr up \<longrightarrow>
                  py_in (item_id item) up = Inr False \<longrightarrow>
               try_body call lib w item loc fs =
                 (case download_stage (call (net w)) lib w fs (item_id item) (name md @ ''.pdf'')
                         ''FILE_TYPE_PDF'' (ExportMedia (item_id item) ''application/pdf'') of
                    (r, fs1, evs) \<Rightarrow>
                      (r, \<lparr>file_name = Some (name md),
                           local_file_name = Some (name md @ ''.pdf'')\<rparr>,
                       fs1, EvMeta (item_id item) # evs))))
       \<and> (\<forall>r loc' fs' evs. process_item call lib w item loc fs = (r, loc', fs', evs) \<longrightarrow>
             r \<noteq> Inr Unsupported \<and> (\<forall>k. EvLedger UNSUPPORTED_FILE_PATH k \<notin> set evs))"
proof -
  have "get_file_type ''application/pdf'' = ''FILE_TYPE_PDF''"
    by (simp add: get_file_type_def mime_type_to_file_type_def)
  moreover have "mimeType md \<noteq> ''application/vnd.google-apps.folder'' \<longrightarrow>
            (\<forall>up. load_uploaded_files lib fs UPLOADED_FILE_PATH = Inr up \<longrightarrow>
                  py_in (item_id item) up = Inr False \<longrightarrow>
               try_body call lib w item loc fs =
                 (case download_stage (call (net w)) lib w fs (item_id item) (name md @ ''.pdf'')
                         ''FILE_TYPE_PDF'' (ExportMedia (item_id item) ''application/pdf'') of
                    (r, fs1, evs) \<Rightarrow>
                      (r, \<lparr>file_name = Some (name md),
                           local_file_name = Some (name md @ ''.pdf'')\<rparr>,
                       fs1, EvMeta (item_id item) # evs)))"
    using try_body_editor[OF _ _ assms] by blast
  moreover have "\<forall>r loc' fs' evs. process_item call lib w item loc fs = (r, loc', fs', evs) \<longrightarrow>
             r \<noteq> Inr Unsupported \<and> (\<forall>k. EvLedger UNSUPPORTED_FILE_PATH k \<notin> set evs)"
    using editor_not_unsupported[OF assms] by blast
  ultimately show ?thesis by blast
qed

theorem editor_exported_as_pdf_witness:
  "files_get world_editor (item_id doc_item) = Inr doc_meta
   \<and> startswith (mimeType doc_meta) ''application/vnd.google-apps.''
   \<and> try_body call_catalog_api lib0 world_editor doc_item locals0 Map.empty =
       (case download_stage (call_catalog_api (net world_editor)) lib0 world_editor Map.empty
               ''d1'' ''notes.pdf'' ''FILE_TYPE_PDF'' (ExportMedia ''d1'' ''application/pdf'') of
          (r, fs1, evs) \<Rightarrow>
            (r, \<lparr>file_name = Some ''notes'', local_file_name = Some ''notes.pdf''\<rparr>,
             fs1, EvMeta ''d1'' # evs))
   \<and> fst (process_item call_catalog_api lib0 world_editor doc_item locals0 Map.empty)
       = Inr Uploaded"
proof -
  have g: "files_get world_editor (item_id doc_item) = Inr doc_meta"
    by (simp add: world_editor_def scripted_def)
  have s: "startswith (mimeType doc_meta) ''application/vnd.google-apps.''"
    by (simp add: doc_meta_def startswith_def)
  have n: "mimeType doc_meta \<noteq> ''application/vnd.google-apps.folder''"
    by (simp add: doc_meta_def)
  have l: "load_uploaded_files lib0 Map.empty UPLOADED_FILE_PATH = Inr (JArr [])"
    by (simp add: load_uploaded_files_def)
  have p: "py_in (item_id doc_item) (JArr []) = Inr False" by simp
  have u: "fst (process_item call_catalog_api lib0 world_editor doc_item locals0 Map.empty)
             = Inr Uploaded"
    by (simp add: ev_defs Let_def world_editor_def doc_item_def doc_meta_def)
  from editor_exported_as_pdf [OF g s, of lib0 Map.empty call_catalog_api locals0] n l p
  have "try_body call_catalog_api lib0 world_editor doc_item locals0 Map.empty =
       (case download_stage (call_catalog_api (net world_editor)) lib0 world_editor Map.empty
               (item_id doc_item) (name doc_meta @ ''.pdf'') ''FILE_TYPE_PDF''
               (ExportMedia (item_id doc_item) ''application/pdf'') of
          (r, fs1, evs) \<Rightarrow>
            (r, \<lparr>file_name = Some (name doc_meta),
                 local_file_name = Some (name doc_meta @ ''.pdf'')\<rparr>,
             fs1, EvMeta (item_id doc_item) # evs))"
    by blast
  with g s u show ?thesis by (simp add: doc_item_def doc_meta_def)
qed


section \<open>Running again when everything is uploaded\<close>

lemma try_body_skip:
  assumes "load_uploaded_files lib fs UPLOADED_FILE_PATH = Inr (JArr xs)"
    and "JStr (item_id item) \<in> set xs"
  shows "try_body call lib w item loc fs = (Inr Already_Uploaded, loc, fs, [])"
  using assms by (simp add: try_body_def)

lemma process_item_skip:
  assumes "load_uploaded_files lib fs UPLOADED_FILE_PATH = Inr (JArr xs)"
    and "JStr (item_id item) \<in> set xs"
  shows "process_item call lib w item loc fs = (Inr Already_Uploaded, loc, fs, [])"
  using try_body_skip[OF assms] by (simp add: process_item_def)

lemma for_items_skip:
  assumes "load_uploaded_files lib fs UPLOADED_FILE_PATH = Inr (JArr xs)"
    and "\<forall>item \<in> set items. JStr (item_id item) \<in> set xs"
  shows "for_items call lib w items loc fs
           = (None, replicate (length items) Already_Uploaded, fs, [])"
  using assms(2)
proof (induction items)
  case Nil
  show ?case by simp
next
  case (Cons item items)
  then have "JStr (item_id item) \<in> set xs" by simp
  from process_item_skip[OF assms(1) this] Cons show ?case by simp
qed

lemma load_other_path:
  "path \<noteq> p \<Longrightarrow> load_uploaded_files lib (fs(p \<mapsto> d)) path = load_uploaded_files lib fs path"
  by (simp add: load_uploaded_files_def)

lemma time_not_ledger:
  "TIME_FILE_PATH \<noteq> UPLOADED_FILE_PATH" "TIME_FILE_PATH \<noteq> FAILED_FILE_PATH"
  "TIME_FILE_PATH \<noteq> UNSUPPORTED_FILE_PATH"
  by (simp_all add: TIME_FILE_PATH_def UPLOADED_FILE_PATH_def FAILED_FILE_PATH_def
        UNSUPPORTED_FILE_PATH_def)

lemma time_not_uploaded: "UPLOADED_FILE_PATH \<noteq> TIME_FILE_PATH"
  by (simp add: UPLOADED_FILE_PATH_def TIME_FILE_PATH_def)

lemma run_try_skip:
  assumes "build w = None" "\<forall>q. files_list w q = Inr items"
    and "load_uploaded_files lib fs UPLOADED_FILE_PATH = Inr (JArr xs)"
    and "\<forall>item \<in> set items. JStr (item_id item) \<in> set xs"
  shows "\<exists>fs' evs. run_try call lib w fs = (None, replicate (length items) Already_Uploaded, fs', evs)
           \<and> (fs' = fs \<or> fs' = save_modified_time_to_file fs (now w))
           \<and> (\<exists>q. evs = [EvList q] \<or> evs = [EvSaveTime q, EvList q])"
proof (cases "read_modified_time_from_file lib fs = None
               \<or> read_modified_time_from_file lib fs = Some []")
  case True
  have l: "load_uploaded_files lib (save_modified_time_to_file fs (now w)) UPLOADED_FILE_PATH
             = Inr (JArr xs)"
    using assms(3) time_not_uploaded
    by (simp add: save_modified_time_to_file_def load_other_path)
  from for_items_skip[OF l assms(4)] True assms(1,2)
  have "run_try call lib w fs
          = (None, replicate (length items) Already_Uploaded,
             save_modified_time_to_file fs (now w), [EvSaveTime (now w), EvList (now w)])"
    by (simp add: run_try_def Let_def)
  then show ?thesis by blast
next
  case False
  from for_items_skip[OF assms(3,4)] False assms(1,2)
  have "run_try call lib w fs
          = (None, replicate (length items) Already_Uploaded, fs,
             [EvList (the (read_modified_time_from_file lib fs))])"
    by (auto simp: run_try_def Let_def)
  then show ?thesis by blast
qed

text \<open>
  C5: when the listing answers with the same items for every query and the Uploaded ledger
  holds the id of every listed item, a run (of either entry point: \<open>call\<close> is its
  call_catalog_api) returns at its first call of main; its only events are the listing
  query and possibly the checkpoint write, so there is no metadata fetch, download, upload
  or processing trigger; every file other than the checkpoint file, so each of the three
  ledgers, is as before; and each listed item is skipped at the test of line 74, before
  anything else happens in the iteration.
\<close>

theorem rerun_all_uploaded:
  assumes "build w = None" "\<forall>q. files_list w q = Inr items"
    and "load_uploaded_files lib fs UPLOADED_FILE_PATH = Inr (JArr xs)"
    and "\<forall>item \<in> set items. JStr (item_id item) \<in> set xs"
  shows "\<exists>fs' evs. main call lib (w # ws) fs = Some (fs', evs)
           \<and> (\<forall>p. p \<noteq> TIME_FILE_PATH \<longrightarrow> fs' p = fs p)
           \<and> (\<forall>e \<in> set evs. (\<exists>q. e = EvList q) \<or> (\<exists>t. e = EvSaveTime t))
           \<and> (\<forall>item \<in> set items. \<forall>loc.
                 process_item call lib w item loc fs' = (Inr Already_Uploaded, loc, fs', []))"
proof -
  from run_try_skip[OF assms, of call] obtain fs' evs q where
    r: "run_try call lib w fs = (None, replicate (length items) Already_Uploaded, fs', evs)"
    and f: "fs' = fs \<or> fs' = save_modified_time_to_file fs (now w)"
    and e: "evs = [EvList q] \<or> evs = [EvSaveTime q, EvList q]"
    by blast
  from r have m: "main call lib (w # ws) fs = Some (fs', evs)" by simp
  from f have fr: "\<forall>p. p \<noteq> TIME_FILE_PATH \<longrightarrow> fs' p = fs p"
    by (auto simp: save_modified_time_to_file_def)
  from f assms(3) time_not_uploaded
  have l: "load_uploaded_files lib fs' UPLOADED_FILE_PATH = Inr (JArr xs)"
    by (auto simp: save_modified_time_to_file_def load_other_path)
  have "\<forall>item \<in> set items. \<forall>loc.
          process_item call lib w item loc fs' = (Inr Already_Uploaded, loc, fs', [])"
    using process_item_skip[OF l] assms(4) by blast
  with m fr e show ?thesis by auto
qed

theorem rerun_all_uploaded_witness:
  "build world_ok = None
   \<and> load_uploaded_files lib0 uploaded_f1 UPLOADED_FILE_PATH = Inr (JArr [JStr ''f1''])
   \<and> (\<exists>fs' evs. main call_catalog_api lib0 [world_ok] uploaded_f1 = Some (fs', evs)
         \<and> fs' UPLOADED_FILE_PATH = uploaded_f1 UPLOADED_FILE_PATH
         \<and> fs' FAILED_FILE_PATH = uploaded_f1 FAILED_FILE_PATH
         \<and> fs' UNSUPPORTED_FILE_PATH = uploaded_f1 UNSUPPORTED_FILE_PATH
         \<and> process_item call_catalog_api lib0 world_ok f1 locals0 fs'
             = (Inr Already_Uploaded, locals0, fs', []))"
proof -
  have a: "build world_ok = None" by (simp add: world_ok_def scripted_def)
  have b: "\<forall>q. files_list world_ok q = Inr [f1]" by (simp add: world_ok_def scripted_def)
  have c: "load_uploaded_files lib0 uploaded_f1 UPLOADED_FILE_PATH = Inr (JArr [JStr ''f1''])"
    by (simp add: uploaded_f1_def load_uploaded_files_def json_load_def)
  have d: "\<forall>item \<in> set [f1]. JStr (item_id item) \<in> set [JStr ''f1'']" by (simp add: f1_def)
  from rerun_all_uploaded [OF a b c d, of call_catalog_api "[]"] time_not_ledger
  have "\<exists>fs' evs. main call_catalog_api lib0 [world_ok] uploaded_f1 = Some (fs', evs)
         \<and> fs' UPLOADED_FILE_PATH = uploaded_f1 UPLOADED_FILE_PATH
         \<and> fs' FAILED_FILE_PATH = uploaded_f1 FAILED_FILE_PATH
         \<and> fs' UNSUPPORTED_FILE_PATH = uploaded_f1 UNSUPPORTED_FILE_PATH
         \<and> process_item call_catalog_api lib0 world_ok f1 locals0 fs'
             = (Inr Already_Uploaded, locals0, fs', [])"
    by (simp, metis)
  with a c show ?thesis by blast
qed


section \<open>Exceptions in the loop\<close>

lemmas run_defs = ev_defs Let_def run_try_def world_empty_def world_meta_fails_def
  world_upload_null_def world_process_empty_def world_500_def upload_null_def process_empty_def
  server_error_def read_modified_time_from_file_def save_modified_time_to_file_def
  TIME_FILE_PATH_def main_py_def script_main_def script_call_catalog_api_def

text \<open>
  C2 at a concrete run: the listing holds one file and its metadata fetch raises. The
  handler of the loop formats \<open>file_name\<close>, which is not bound yet in the first iteration,
  so UnboundLocalError leaves the loop and reaches the outer handler, which calls main
  again: with this world alone the calls do not return, and with a second world the listing
  is queried a second time and the whole run starts over.
\<close>

theorem metadata_error_restarts_run:
  "run_try call_catalog_api lib0 world_meta_fails Map.empty
     = (Some UnboundLocalError, [], [TIME_FILE_PATH \<mapsto> Text ''2024-05-01T10:00:00.000Z''],
        [EvSaveTime ''2024-05-01T10:00:00.000Z'', EvList ''2024-05-01T10:00:00.000Z'',
         EvMeta ''f1''])
   \<and> main_py lib0 [world_meta_fails] Map.empty = None
   \<and> main_py lib0 [world_meta_fails, world_ok] Map.empty
       = Some ([TIME_FILE_PATH \<mapsto> Text ''2024-05-01T10:00:00.000Z'',
                UPLOADED_FILE_PATH \<mapsto> Doc (JObj [(''data'', JArr [JStr ''f1''])])],
               [EvSaveTime ''2024-05-01T10:00:00.000Z'', EvList ''2024-05-01T10:00:00.000Z'',
                EvMeta ''f1'',
                EvList ''2024-05-01T10:00:00.000Z'', EvMeta ''f1'', EvCreate ''report.pdf'',
                EvCall UPLOAD_FILES_URL
                  (JObj [(''name'', JStr ''report.pdf''), (''type'', JStr ''FILE_TYPE_PDF''),
                         (''content'', JStr ''%PDF'')]),
                EvCall PROCESS_FILES_URL (JObj [(''fileUids'', JArr [JStr ''u1''])]),
                EvRemove ''report.pdf'', EvLedger UPLOADED_FILE_PATH ''f1''])"
  by (simp add: run_defs strip_def is_space_def)


section \<open>Answers without the expected field\<close>

text \<open>
  C4 at two concrete runs, both with status 200: a processing answer whose \<open>files\<close> list is
  empty makes \<open>[0]\<close> raise IndexError, and an upload answer whose \<open>file\<close> entry is null makes
  the second \<open>get\<close> raise AttributeError. Both end in the exception handler: the local file
  is removed, and nothing is appended to the Failed ledger.
\<close>

theorem missing_field_not_failed:
  "process_item call_catalog_api lib0 world_process_empty f1 locals0 Map.empty
     = (Inr (Exception_Logged IndexError),
        \<lparr>file_name = Some ''report.pdf'', local_file_name = Some ''report.pdf''\<rparr>,
        Map.empty,
        [EvMeta ''f1'', EvCreate ''report.pdf'',
         EvCall UPLOAD_FILES_URL (JObj [(''name'', JStr ''report.pdf''), (''type'', JStr ''FILE_TYPE_PDF''),
                                        (''content'', JStr ''%PDF'')]),
         EvCall PROCESS_FILES_URL (JObj [(''fileUids'', JArr [JStr ''u1''])]),
         EvRemove ''report.pdf''])
   \<and> process_item call_catalog_api lib0 world_upload_null f1 locals0 Map.empty
     = (Inr (Exception_Logged AttributeError),
        \<lparr>file_name = Some ''report.pdf'', local_file_name = Some ''report.pdf''\<rparr>,
        Map.empty,
        [EvMeta ''f1'', EvCreate ''report.pdf'',
         EvCall UPLOAD_FILES_URL (JObj [(''name'', JStr ''report.pdf''), (''type'', JStr ''FILE_TYPE_PDF''),
                                        (''content'', JStr ''%PDF'')]),
         EvRemove ''report.pdf''])"
  by (simp add: run_defs)


text \<open>
  Where the field is only absent or empty, so that the two \<open>get\<close> calls return a false
  value, the two failure branches do what the claim says: the id is appended to the Failed
  ledger, the local file is removed, and after an upload without a file uid no processing
  call is made.
\<close>

lemma upload_without_uid:
  assumes "process_file_data lib rs fs lname t = Inr file_data"
    and "call UPLOAD_FILES_URL ''POST'' (Some file_data) ''Upload Files'' = Inr uploaded_file"
    and "get_file_uid uploaded_file = Inr uid" "\<not> truthy uid"
    and "load_uploaded_files lib fs FAILED_FILE_PATH = Inr (JArr xs)"
    and "rs lname = File k"
  shows "upload_stage call lib rs fs i lname t
           = (Inr Upload_Failed,
              (fs(FAILED_FILE_PATH \<mapsto> Doc (JObj [(''data'',
                    JArr (if JStr i \<in> set xs then xs else xs @ [JStr i]))])))(k := None),
              [EvCall UPLOAD_FILES_URL file_data, EvLedger FAILED_FILE_PATH i, EvRemove lname])"
proof -
  from assms(1,6) have "k \<in> dom fs"
    by (auto simp: process_file_data_def split: option.splits)
  with append_file_id_list[OF assms(5), of i] assms(6)
  have "record_failure lib rs fs i lname
          = (Inr (), (fs(FAILED_FILE_PATH \<mapsto> Doc (JObj [(''data'',
                    JArr (if JStr i \<in> set xs then xs else xs @ [JStr i]))])))(k := None),
             [EvLedger FAILED_FILE_PATH i, EvRemove lname])"
    by (auto simp: record_failure_def os_remove_def)
  with assms(1-4) show ?thesis
    by (simp add: upload_stage_def tag_def after_def)
qed

lemma trigger_without_status:
  assumes "call PROCESS_FILES_URL ''POST'' (Some (JObj [(''fileUids'', JArr [file_uid])]))
             ''Process Files'' = Inr process_data"
    and "get_process_status process_data = Inr status" "\<not> truthy status"
    and "load_uploaded_files lib fs FAILED_FILE_PATH = Inr (JArr xs)"
    and "rs lname = File k" "k \<in> dom fs"
  shows "trigger_stage call lib rs fs i lname file_uid
           = (Inr Process_Failed,
              (fs(FAILED_FILE_PATH \<mapsto> Doc (JObj [(''data'',
                    JArr (if JStr i \<in> set xs then xs else xs @ [JStr i]))])))(k := None),
              [EvCall PROCESS_FILES_URL (JObj [(''fileUids'', JArr [file_uid])]),
               EvLedger FAILED_FILE_PATH i, EvRemove lname])"
proof -
  from append_file_id_list[OF assms(4), of i] assms(5,6)
  have "record_failure lib rs fs i lname
          = (Inr (), (fs(FAILED_FILE_PATH \<mapsto> Doc (JObj [(''data'',
                    JArr (if JStr i \<in> set xs then xs else xs @ [JStr i]))])))(k := None),
             [EvLedger FAILED_FILE_PATH i, EvRemove lname])"
    by (auto simp: record_failure_def os_remove_def)
  with assms(1-3) show ?thesis
    by (simp add: trigger_stage_def tag_def after_def)
qed


section \<open>The two entry points\<close>

text \<open>
  C9, as stated, fails on an answer with status 500 and a JSON body: the call_catalog_api
  of helpers.py raises HTTPError, the one of script.py returns the body; the iteration of
  main.py ends in the exception handler, the one of script.py appends the id to the Failed
  ledger.
\<close>

theorem call_catalog_api_differ_counterexample:
  "call_catalog_api (net world_500) UPLOAD_FILES_URL ''POST'' None []  = Inl HTTPError
   \<and> script_call_catalog_api (net world_500) UPLOAD_FILES_URL ''POST'' None []
       = Inr (JObj [(''message'', JStr ''internal'')])
   \<and> fst (process_item call_catalog_api lib0 world_500 f1 locals0 Map.empty)
       = Inr (Exception_Logged HTTPError)
   \<and> fst (process_item script_call_catalog_api lib0 world_500 f1 locals0 Map.empty)
       = Inr Upload_Failed"
  by (simp add: run_defs)

lemma call_catalog_api_agree:
  assumes "no_error_status n" "method = ''POST'' \<or> method = ''PUT''"
  shows "call_catalog_api n url method data nm = script_call_catalog_api n url method data nm"
proof (cases "n \<lparr>rq_method = method, rq_url = url, rq_json = data\<rparr>")
  case (Inl e)
  with assms(2) show ?thesis
    by (auto simp: call_catalog_api_def script_call_catalog_api_def)
next
  case (Inr response)
  with assms(1) have "raise_for_status response = None"
    by (auto simp: no_error_status_def raise_for_status_def)
  with Inr assms(2) show ?thesis
    by (auto simp: call_catalog_api_def script_call_catalog_api_def)
qed

lemma trigger_stage_cong:
  assumes "\<And>u d n. c1 u ''POST'' d n = c2 u ''POST'' d n"
  shows "trigger_stage c1 lib rs fs i l uid = trigger_stage c2 lib rs fs i l uid"
  unfolding trigger_stage_def assms ..

lemma upload_stage_cong:
  assumes "\<And>u d n. c1 u ''POST'' d n = c2 u ''POST'' d n"
  shows "upload_stage c1 lib rs fs i l t = upload_stage c2 lib rs fs i l t"
  unfolding upload_stage_def assms trigger_stage_cong[of c1 c2, OF assms] ..

lemma download_stage_cong:
  assumes "\<And>u d n. c1 u ''POST'' d n = c2 u ''POST'' d n"
  shows "download_stage c1 lib w fs i l t rq = download_stage c2 lib w fs i l t rq"
  unfolding download_stage_def upload_stage_cong[of c1 c2, OF assms] ..

lemma try_body_cong:
  assumes "\<And>u d n. c1 (net w) u ''POST'' d n = c2 (net w) u ''POST'' d n"
  shows "try_body c1 lib w item loc fs = try_body c2 lib w item loc fs"
  unfolding try_body_def download_stage_cong[of "c1 (net w)" "c2 (net w)", OF assms] ..

lemma process_item_cong:
  assumes "\<And>u d n. c1 (net w) u ''POST'' d n = c2 (net w) u ''POST'' d n"
  shows "process_item c1 lib w item loc fs = process_item c2 lib w item loc fs"
  unfolding process_item_def try_body_cong[of c1 w c2, OF assms] ..

lemma for_items_cong:
  assumes "\<And>u d n. c1 (net w) u ''POST'' d n = c2 (net w) u ''POST'' d n"
  shows "for_items c1 lib w items loc fs = for_items c2 lib w items loc fs"
  by (induction items arbitrary: loc fs)
     (simp_all add: process_item_cong[of c1 w c2, OF assms] split: prod.splits sum.splits)

lemma run_try_cong:
  assumes "\<And>u d n. c1 (net w) u ''POST'' d n = c2 (net w) u ''POST'' d n"
  shows "run_try c1 lib w fs = run_try c2 lib w fs"
  unfolding run_try_def for_items_cong[of c1 w c2, OF assms] ..

lemma main_cong:
  assumes "\<forall>w \<in> set ws. \<forall>u d n. c1 (net w) u ''POST'' d n = c2 (net w) u ''POST'' d n"
  shows "main c1 lib ws fs = main c2 lib ws fs"
  using assms
proof (induction ws arbitrary: fs)
  case Nil
  show ?case by simp
next
  case (Cons w ws)
  then have "run_try c1 lib w fs = run_try c2 lib w fs"
    by (intro run_try_cong) simp
  with Cons show ?case by (auto split: prod.splits option.splits)
qed

text \<open>
  C9, amended: on worlds whose catalog network never answers with a status from 400 to
  599, the two call_catalog_api agree on every POST and PUT request, and the two entry
  points compute the same result.
\<close>

theorem variants_agree_without_error_status:
  assumes "\<forall>w \<in> set ws. no_error_status (net w)"
  shows "(\<forall>w \<in> set ws. \<forall>method url data nm. method = ''POST'' \<or> method = ''PUT'' \<longrightarrow>
            call_catalog_api (net w) url method data nm
              = script_call_catalog_api (net w) url method data nm)
         \<and> main_py lib ws fs = script_main lib ws fs"
proof -
  have a: "\<forall>w \<in> set ws. \<forall>method url data nm. method = ''POST'' \<or> method = ''PUT'' \<longrightarrow>
            call_catalog_api (net w) url method data nm
              = script_call_catalog_api (net w) url method data nm"
    using assms call_catalog_api_agree by blast
  then have "\<forall>w \<in> set ws. \<forall>u d n. call_catalog_api (net w) u ''POST'' d n
                = script_call_catalog_api (net w) u ''POST'' d n"
    by blast
  then have "main call_catalog_api lib ws fs = main script_call_catalog_api lib ws fs"
    by (rule main_cong)
  with a show ?thesis by (simp add: main_py_def script_main_def)
qed

theorem variants_agree_without_error_status_witness:
  "main_py lib0 [world_ok] Map.empty = script_main lib0 [world_ok] Map.empty
   \<and> call_catalog_api (net world_ok) UPLOAD_FILES_URL ''POST'' None []
       = script_call_catalog_api (net world_ok) UPLOAD_FILES_URL ''POST'' None []"
proof -
  have h: "\<forall>w \<in> set [world_ok]. no_error_status (net w)"
    by (simp add: no_error_status_def world_ok_def scripted_def upload_ok_def process_ok_def)
  from variants_agree_without_error_status [OF h, of lib0 Map.empty] show ?thesis by simp
qed


section \<open>The checkpoint\<close>

text \<open>
  C1, as stated, fails: with no checkpoint file and an empty listing, the run writes the
  current time to the checkpoint file, and a read after the run returns it.
\<close>

theorem checkpoint_written_counterexample:
  "read_modified_time_from_file lib0 Map.empty = None
   \<and> main_py lib0 [world_empty] Map.empty
       = Some ([TIME_FILE_PATH \<mapsto> Text ''2024-05-01T10:00:00.000Z''],
               [EvSaveTime ''2024-05-01T10:00:00.000Z'', EvList ''2024-05-01T10:00:00.000Z''])
   \<and> read_modified_time_from_file lib0 [TIME_FILE_PATH \<mapsto> Text ''2024-05-01T10:00:00.000Z'']
       = Some ''2024-05-01T10:00:00.000Z''"
  by (simp add: run_defs strip_def is_space_def)

lemma handled_frame:
  assumes "handled rs loc fs evs0 (r, fs', evs)"
    and "\<forall>l. local_file_name loc = Some l \<longrightarrow> rs l \<noteq> File P"
  shows "fs' P = fs P"
  using assms by (auto simp: handled_def split: if_splits target.splits)

lemma created_frame:
  assumes "created i md k fs cs written (r, fs', evs)" "k \<noteq> P"
    and "P \<noteq> UPLOADED_FILE_PATH" "P \<noteq> FAILED_FILE_PATH"
  shows "fs' P = fs P"
  using assms unfolding created_def by auto

lemma process_item_frame:
  assumes p: "process_item call lib w item loc fs = (r, loc', fs', evs)"
    and l: "\<forall>l. local_file_name loc = Some l \<longrightarrow> locate w l \<noteq> File P"
    and m: "\<forall>md. files_get w (item_id item) = Inr md \<longrightarrow> locate w (local_name md) \<noteq> File P"
    and n: "P \<noteq> UPLOADED_FILE_PATH" "P \<noteq> FAILED_FILE_PATH" "P \<noteq> UNSUPPORTED_FILE_PATH"
  shows "fs' P = fs P \<and> (\<forall>l. local_file_name loc' = Some l \<longrightarrow> locate w l \<noteq> File P)"
proof -
  from process_item_cases[OF p] consider
      (same) "loc' = loc" "fs' = fs"
    | (early) evs0 where "loc' = loc" "handled (locate w) loc fs evs0 (r, fs', evs)"
    | (meta) md where "files_get w (item_id item) = Inr md" "bound loc' md" "fs' = fs"
    | (late) md evs0 where "files_get w (item_id item) = Inr md" "bound loc' md"
        "handled (locate w) loc' fs evs0 (r, fs', evs)"
    | (unsupported) md d where "files_get w (item_id item) = Inr md" "bound loc' md"
        "fs' = fs(UNSUPPORTED_FILE_PATH \<mapsto> Doc d)"
    | (made) md k cs written where "files_get w (item_id item) = Inr md" "bound loc' md"
        "locate w (local_name md) = File k"
        "created (item_id item) md k fs cs written (r, fs', evs)"
    by blast
  then show ?thesis
  proof cases
    case same
    with l show ?thesis by simp
  next
    case early
    with handled_frame[OF early(2) l] l show ?thesis by simp
  next
    case meta
    with m show ?thesis by (simp add: bound_def)
  next
    case late
    from late(1,2) m have b: "\<forall>l. local_file_name loc' = Some l \<longrightarrow> locate w l \<noteq> File P"
      by (simp add: bound_def)
    from handled_frame[OF late(3) b] b show ?thesis by simp
  next
    case unsupported
    with m n show ?thesis by (simp add: bound_def)
  next
    case made
    from made(1,2) m have b: "\<forall>l. local_file_name loc' = Some l \<longrightarrow> locate w l \<noteq> File P"
      by (simp add: bound_def)
    from made(1,3) m have "k \<noteq> P" by auto
    from created_frame[OF made(4) this n(1,2)] b show ?thesis by simp
  qed
qed

lemma for_items_frame:
  assumes "for_items call lib w items loc fs = (r, outs, fs', evs)"
    and "\<forall>l. local_file_name loc = Some l \<longrightarrow> locate w l \<noteq> File P"
    and "\<forall>item \<in> set items. \<forall>md. files_get w (item_id item) = Inr md
            \<longrightarrow> locate w (local_name md) \<noteq> File P"
    and "P \<noteq> UPLOADED_FILE_PATH" "P \<noteq> FAILED_FILE_PATH" "P \<noteq> UNSUPPORTED_FILE_PATH"
  shows "fs' P = fs P"
  using assms(1,2,3)
proof (induction items arbitrary: loc fs r outs fs' evs)
  case Nil
  then show ?case by simp
next
  case (Cons item items)
  obtain r1 loc1 fs1 evs1 where p: "process_item call lib w item loc fs = (r1, loc1, fs1, evs1)"
    by (cases "process_item call lib w item loc fs") auto
  from Cons.prems(3)
  have m: "\<forall>md. files_get w (item_id item) = Inr md \<longrightarrow> locate w (local_name md) \<noteq> File P"
    by simp
  from process_item_frame[OF p Cons.prems(2) m assms(4,5,6)]
  have f1: "fs1 P = fs P"
    and l1: "\<forall>l. local_file_name loc1 = Some l \<longrightarrow> locate w l \<noteq> File P" by simp_all
  show ?case
  proof (cases r1)
    case (Inl e)
    with Cons.prems(1) p f1 show ?thesis by simp
  next
    case (Inr out)
    obtain r2 outs2 fs2 evs2 where
      q: "for_items call lib w items loc1 fs1 = (r2, outs2, fs2, evs2)"
      by (cases "for_items call lib w items loc1 fs1") auto
    from Cons.prems(3) have "\<forall>item \<in> set items. \<forall>md. files_get w (item_id item) = Inr md
            \<longrightarrow> locate w (local_name md) \<noteq> File P" by simp
    from Cons.IH[OF q l1 this] have "fs2 P = fs1 P" .
    with Inr Cons.prems(1) p q f1 show ?thesis by simp
  qed
qed

text \<open>
  C1, amended: when the checkpoint read yields absent at the start of a run, the run takes
  the current time, writes it to the checkpoint file and then queries the listing with it.
  The checkpoint file holds that time when the run ends, and a read returns it (stripped),
  as long as the local path of no listed file (its name, with \<open>.pdf\<close> added for an editor
  document) names the checkpoint file: such a file would be downloaded over it.
\<close>

theorem checkpoint_initialised:
  assumes a: "read_modified_time_from_file lib fs = None"
    and b: "build w = None"
    and m: "\<forall>items item md. files_list w (now w) = Inr items \<longrightarrow> item \<in> set items \<longrightarrow>
              files_get w (item_id item) = Inr md \<longrightarrow>
              locate w (if startswith (mimeType md) ''application/vnd.google-apps.''
                        then name md @ ''.pdf'' else name md) \<noteq> File TIME_FILE_PATH"
    and r: "run_try call lib w fs = (r, outs, fs', evs)"
  shows "take 2 evs = [EvSaveTime (now w), EvList (now w)]
         \<and> fs' TIME_FILE_PATH = Some (Text (now w))
         \<and> read_modified_time_from_file lib fs' = Some (strip (now w))"
proof -
  let ?fs1 = "save_modified_time_to_file fs (now w)"
  have s: "?fs1 TIME_FILE_PATH = Some (Text (now w))"
    by (simp add: save_modified_time_to_file_def)
  have "take 2 evs = [EvSaveTime (now w), EvList (now w)] \<and> fs' TIME_FILE_PATH = ?fs1 TIME_FILE_PATH"
  proof (cases "files_list w (now w)")
    case (Inl e)
    with a b r show ?thesis by (auto simp: run_try_def Let_def)
  next
    case (Inr items)
    obtain r2 outs2 fs2 evs2 where
      q: "for_items call lib w items \<lparr>file_name = None, local_file_name = None\<rparr> ?fs1
            = (r2, outs2, fs2, evs2)"
      by (cases "for_items call lib w items \<lparr>file_name = None, local_file_name = None\<rparr> ?fs1") auto
    from m Inr have "\<forall>item \<in> set items. \<forall>md. files_get w (item_id item) = Inr md
            \<longrightarrow> locate w (local_name md) \<noteq> File TIME_FILE_PATH"
      unfolding local_name_def by blast
    from for_items_frame[OF q _ this time_not_ledger]
    have "fs2 TIME_FILE_PATH = ?fs1 TIME_FILE_PATH" by simp
    with a b r Inr q show ?thesis
      by (cases "items = []") (auto simp: run_try_def Let_def)
  qed
  with s show ?thesis
    by (simp add: read_modified_time_from_file_def file_read_def)
qed

theorem checkpoint_initialised_witness:
  "read_modified_time_from_file lib0 Map.empty = None
   \<and> build world_ok = None
   \<and> read_modified_time_from_file lib0
         (fst (snd (snd (run_try call_catalog_api lib0 world_ok Map.empty))))
       = Some ''2024-05-01T10:00:00.000Z''"
proof -
  have a: "read_modified_time_from_file lib0 Map.empty = None"
    by (simp add: read_modified_time_from_file_def)
  have b: "build world_ok = None" by (simp add: world_ok_def scripted_def)
  have m: "\<forall>items item md. files_list world_ok (now world_ok) = Inr items \<longrightarrow> item \<in> set items \<longrightarrow>
          files_get world_ok (item_id item) = Inr md \<longrightarrow>
          locate world_ok (if startswith (mimeType md) ''application/vnd.google-apps.''
                           then name md @ ''.pdf'' else name md) \<noteq> File TIME_FILE_PATH"
    by (simp add: world_ok_def scripted_def pdf_meta_def TIME_FILE_PATH_def startswith_def)
  have r: "run_try call_catalog_api lib0 world_ok Map.empty
             = (fst (run_try call_catalog_api lib0 world_ok Map.empty),
                fst (snd (run_try call_catalog_api lib0 world_ok Map.empty)),
                fst (snd (snd (run_try call_catalog_api lib0 world_ok Map.empty))),
                snd (snd (snd (run_try call_catalog_api lib0 world_ok Map.empty))))"
    by simp
  have n: "strip (now world_ok) = ''2024-05-01T10:00:00.000Z''"
    by (simp add: world_ok_def scripted_def strip_def is_space_def)
  from checkpoint_initialised [OF a b m r] a b n show ?thesis by simp
qed

end
